theory Spec2Isabelle
  imports Complex_Main "HOL-Library.Word"
begin

section \<open>The click handler of StockMarket/script.js\<close>

text \<open>
  The file under verification is one asynchronous event handler, registered on the
  element \<^verbatim>\<open>predict-btn\<close>, and one module-level variable \<^verbatim>\<open>stockChart\<close>.
  The handler reads the ticker input, posts it to the prediction endpoint, and writes
  the decoded answer into fixed page elements and a chart.

  The embedding has three layers:
  \<^item> the values of the language the handler computes with: strings (sequences of
    UTF-16 code units), Numbers (IEEE-754 binary64 with round-to-nearest-even), and
    the built-ins the handler calls on them (\<^verbatim>\<open>trim\<close>, \<^verbatim>\<open>toFixed\<close>, the conversions
    between strings and Numbers, \<^verbatim>\<open>-\<close>, \<^verbatim>\<open>/\<close>, \<^verbatim>\<open>*\<close>, \<^verbatim>\<open>>=\<close>, \<^verbatim>\<open>new Array\<close>);
  \<^item> the state the handler reads and writes: the page elements it touches, the
    variable \<^verbatim>\<open>stockChart\<close>, the chart objects constructed so far, and the log of
    requests sent;
  \<^item> the handler itself, split at its suspension point (the awaited \<^verbatim>\<open>fetch\<close>).
\<close>

subsection \<open>Strings\<close>

text \<open>A string is a sequence of 16-bit code units.\<close>

type_synonym js_string = "16 word list"

definition str :: "string \<Rightarrow> js_string" where
  "str cs = map of_char cs"

text \<open>
  \<^verbatim>\<open>String.prototype.trim\<close> strips WhiteSpace and LineTerminator code points from both
  ends: TAB, VT, FF, ZWNBSP, the category Zs (SP, NBSP, U+1680, U+2000..U+200A, U+202F,
  U+205F, U+3000), and LF, CR, LS, PS.
\<close>

definition is_white_space :: "16 word \<Rightarrow> bool" where
  "is_white_space c \<longleftrightarrow>
     c = 0x0009 \<or> c = 0x000A \<or> c = 0x000B \<or> c = 0x000C \<or> c = 0x000D \<or> c = 0x0020
     \<or> c = 0x00A0 \<or> c = 0x1680 \<or> (0x2000 \<le> c \<and> c \<le> 0x200A) \<or> c = 0x2028
     \<or> c = 0x2029 \<or> c = 0x202F \<or> c = 0x205F \<or> c = 0x3000 \<or> c = 0xFEFF"

definition trim :: "js_string \<Rightarrow> js_string" where
  "trim s = rev (dropWhile is_white_space (rev (dropWhile is_white_space s)))"

text \<open>The decimal digits of an integer that is not negative.\<close>

definition digit_char :: "int \<Rightarrow> 16 word" where
  "digit_char d = of_int (48 + d)"

function digits :: "int \<Rightarrow> js_string" where
  "digits n = (if n < 10 then [digit_char n] else digits (n div 10) @ [digit_char (n mod 10)])"
  by pat_completeness auto
termination
  by (relation "measure nat") auto

text \<open>The number of digits of a positive integer in radix \<open>b\<close>.\<close>

function radix_len :: "int \<Rightarrow> int \<Rightarrow> int" where
  "radix_len b n = (if n < b \<or> b < 2 then 1 else radix_len b (n div b) + 1)"
  by pat_completeness auto
termination
proof (relation "measure (\<lambda>(b, n). nat n)")
  fix b n :: int
  assume "\<not> (n < b \<or> b < 2)"
  then have "0 < n" and "1 < b"
    by simp_all
  then have "n div b < n"
    by (rule int_div_less_self)
  with \<open>0 < n\<close> show "((b, n div b), (b, n)) \<in> measure (\<lambda>(b, n). nat n)"
    by simp
qed simp

subsection \<open>Numbers\<close>

text \<open>
  A Number is a binary64 value: NaN, the two infinities, the two zeros, or a non-zero
  finite value, kept as the rational it denotes. \<open>Fin 0\<close> is the positive zero.
\<close>

datatype jsnum = NaN | PosInf | NegInf | NegZero | Fin rat

definition pow :: "rat \<Rightarrow> int \<Rightarrow> rat" where
  "pow b i = (if 0 \<le> i then b ^ nat i else 1 / b ^ nat (- i))"

text \<open>
  For \<open>0 < q\<close> and a radix \<open>b\<close>, \<open>ilog b q\<close> is the exponent \<open>e\<close> with
  \<open>b^e \<le> q < b^(e+1)\<close>: one less than the number of digits of the integer part when
  \<open>1 \<le> q\<close>, and otherwise read off the reciprocal.
\<close>

definition ilog :: "int \<Rightarrow> rat \<Rightarrow> int" where
  "ilog b q =
     (if 1 \<le> q then radix_len b \<lfloor>q\<rfloor> - 1 else - radix_len b (\<lceil>1 / q\<rceil> - 1))"

definition round_half_even :: "rat \<Rightarrow> int" where
  "round_half_even q =
     (let f = \<lfloor>q\<rfloor>; d = q - of_int f
      in if d < 1 / 2 then f else if 1 / 2 < d then f + 1
         else if even f then f else f + 1)"

text \<open>
  Rounding a positive real to binary64: 53 significant bits, the exponent not below
  that of the subnormals, ties to the even significand, overflow to infinity.
\<close>

definition round_pos :: "rat \<Rightarrow> jsnum" where
  "round_pos q =
     (let e = max (ilog 2 q) (- 1022);
          ulp = pow 2 (e - 52);
          v = of_int (round_half_even (q / ulp)) * ulp
      in if pow 2 1024 \<le> v then PosInf else Fin v)"

fun neg :: "jsnum \<Rightarrow> jsnum" where
  "neg NaN = NaN"
| "neg PosInf = NegInf"
| "neg NegInf = PosInf"
| "neg NegZero = Fin 0"
| "neg (Fin q) = (if q = 0 then NegZero else Fin (- q))"

definition round_double :: "rat \<Rightarrow> jsnum" where
  "round_double q =
     (if q = 0 then Fin 0 else if 0 < q then round_pos q else neg (round_pos (- q)))"

fun is_nan :: "jsnum \<Rightarrow> bool" where
  "is_nan NaN = True"
| "is_nan _ = False"

fun is_inf :: "jsnum \<Rightarrow> bool" where
  "is_inf PosInf = True"
| "is_inf NegInf = True"
| "is_inf _ = False"

fun is_zero :: "jsnum \<Rightarrow> bool" where
  "is_zero NegZero = True"
| "is_zero (Fin q) = (q = 0)"
| "is_zero _ = False"

text \<open>The sign bit.\<close>

fun is_neg :: "jsnum \<Rightarrow> bool" where
  "is_neg NegInf = True"
| "is_neg NegZero = True"
| "is_neg (Fin q) = (q < 0)"
| "is_neg _ = False"

text \<open>The real value of a finite Number (both zeros are 0).\<close>

fun val :: "jsnum \<Rightarrow> rat" where
  "val (Fin q) = q"
| "val _ = 0"

definition signed_inf :: "bool \<Rightarrow> jsnum" where
  "signed_inf n = (if n then NegInf else PosInf)"

definition signed_zero :: "bool \<Rightarrow> jsnum" where
  "signed_zero n = (if n then NegZero else Fin 0)"

text \<open>\<^verbatim>\<open>x + y\<close> and \<^verbatim>\<open>x - y\<close> on Numbers (Number::add, Number::subtract).\<close>

definition js_add :: "jsnum \<Rightarrow> jsnum \<Rightarrow> jsnum" where
  "js_add x y =
     (if is_nan x \<or> is_nan y then NaN
      else if is_inf x then (if is_inf y \<and> x \<noteq> y then NaN else x)
      else if is_inf y then y
      else if x = NegZero \<and> y = NegZero then NegZero
      else round_double (val x + val y))"

definition js_sub :: "jsnum \<Rightarrow> jsnum \<Rightarrow> jsnum" where
  "js_sub x y = js_add x (neg y)"

text \<open>\<^verbatim>\<open>x * y\<close> (Number::multiply).\<close>

definition js_mul :: "jsnum \<Rightarrow> jsnum \<Rightarrow> jsnum" where
  "js_mul x y =
     (if is_nan x \<or> is_nan y then NaN
      else if is_inf x \<or> is_inf y then
        (if is_zero x \<or> is_zero y then NaN else signed_inf (is_neg x \<noteq> is_neg y))
      else if is_zero x \<or> is_zero y then signed_zero (is_neg x \<noteq> is_neg y)
      else round_double (val x * val y))"

text \<open>\<^verbatim>\<open>x / y\<close> (Number::divide): dividing by a zero raises nothing.\<close>

definition js_div :: "jsnum \<Rightarrow> jsnum \<Rightarrow> jsnum" where
  "js_div x y =
     (if is_nan x \<or> is_nan y then NaN
      else if is_inf x then
        (if is_inf y then NaN else signed_inf (is_neg x \<noteq> is_neg y))
      else if is_inf y then signed_zero (is_neg x \<noteq> is_neg y)
      else if is_zero y then
        (if is_zero x then NaN else signed_inf (is_neg x \<noteq> is_neg y))
      else if is_zero x then signed_zero (is_neg x \<noteq> is_neg y)
      else round_double (val x / val y))"

text \<open>
  \<^verbatim>\<open>x < y\<close> on Numbers (Number::lessThan) is undefined when an operand is NaN; the two
  zeros are equal. \<^verbatim>\<open>x >= y\<close> is true exactly when \<^verbatim>\<open>x < y\<close> is false.
\<close>

fun js_less :: "jsnum \<Rightarrow> jsnum \<Rightarrow> bool option" where
  "js_less NaN _ = None"
| "js_less _ NaN = None"
| "js_less PosInf _ = Some False"
| "js_less _ NegInf = Some False"
| "js_less _ PosInf = Some True"
| "js_less NegInf _ = Some True"
| "js_less x y = Some (val x < val y)"

definition js_ge :: "jsnum \<Rightarrow> jsnum \<Rightarrow> bool" where
  "js_ge x y = (js_less x y = Some False)"

subsection \<open>Numbers to strings\<close>

text \<open>
  Number::toString in radix 10. For a positive finite \<open>v\<close> it takes integers \<open>n\<close>,
  \<open>k\<close>, \<open>s\<close> with \<open>10^(k-1) \<le> s < 10^k\<close> such that \<open>s * 10^(n-k)\<close> rounds to \<open>v\<close> and
  \<open>k\<close> is as small as possible, and among those the \<open>s\<close> whose value is closest to
  \<open>v\<close>, the even one of two equally close. \<open>dec_exp v\<close> is the \<open>n\<close> with
  \<open>10^(n-1) \<le> v < 10^n\<close>.
\<close>

definition dec_exp :: "rat \<Rightarrow> int" where
  "dec_exp v = ilog 10 v + 1"

text \<open>
  The \<open>k\<close>-digit candidate at decimal exponent \<open>n\<close>: of the two multiples of
  \<open>10^(n-k)\<close> around \<open>v\<close>, one that rounds to \<open>v\<close>; when both do, the closer one, and
  the even one when they are equally close.
\<close>

definition best_digits :: "rat \<Rightarrow> int \<Rightarrow> nat \<Rightarrow> int option" where
  "best_digits v n k =
     (let u = pow 10 (n - int k);
          lo = \<lfloor>v / u\<rfloor>;
          hi = lo + 1;
          ok_lo = (round_double (of_int lo * u) = Fin v);
          ok_hi = (round_double (of_int hi * u) = Fin v)
      in if ok_lo \<and> ok_hi then
           (if v - of_int lo * u < of_int hi * u - v then Some lo
            else if of_int hi * u - v < v - of_int lo * u then Some hi
            else if even lo then Some lo else Some hi)
         else if ok_lo then Some lo
         else if ok_hi then Some hi
         else None)"

fun shortest_from :: "rat \<Rightarrow> int \<Rightarrow> nat list \<Rightarrow> (int \<times> nat) option" where
  "shortest_from v n [] = None"
| "shortest_from v n (k # ks) =
     (case best_digits v n k of
        Some s \<Rightarrow> Some (s, k)
      | None \<Rightarrow> shortest_from v n ks)"

text \<open>
  Seventeen digits determine every binary64 value, so the search stops there. The last
  case only arises for a rational that is not a binary64 value, which no Number is.
  A candidate \<open>10^k\<close> is the one digit \<open>1\<close> at the next decimal exponent.
\<close>

definition shortest :: "rat \<Rightarrow> int \<times> nat \<times> int" where
  "shortest v =
     (let n = dec_exp v in
      case shortest_from v n [1 ..< 18] of
        Some (s, k) \<Rightarrow> (if s = 10 ^ k then (n + 1, 1, 1) else (n, k, s))
      | None \<Rightarrow> (n, 17, \<lfloor>v / pow 10 (n - 17)\<rfloor>))"

definition zeros :: "nat \<Rightarrow> js_string" where
  "zeros n = replicate n (digit_char 0)"

definition format_digits :: "int \<Rightarrow> nat \<Rightarrow> int \<Rightarrow> js_string" where
  "format_digits n k s =
     (let ds = digits s in
      if - 5 \<le> n \<and> n \<le> 21 then
        (if int k \<le> n then ds @ zeros (nat (n - int k))
         else if 0 < n then take (nat n) ds @ str ''.'' @ drop (nat n) ds
         else str ''0.'' @ zeros (nat (- n)) @ ds)
      else
        (let e = n - 1;
             ex = str (if e < 0 then ''e-'' else ''e+'') @ digits \<bar>e\<bar>
         in if k = 1 then ds @ ex
            else take 1 ds @ str ''.'' @ drop 1 ds @ ex))"

definition to_string_pos :: "rat \<Rightarrow> js_string" where
  "to_string_pos v = (case shortest v of (n, k, s) \<Rightarrow> format_digits n k s)"

fun to_string :: "jsnum \<Rightarrow> js_string" where
  "to_string NaN = str ''NaN''"
| "to_string PosInf = str ''Infinity''"
| "to_string NegInf = str ''-Infinity''"
| "to_string NegZero = str ''0''"
| "to_string (Fin q) =
     (if q = 0 then str ''0''
      else if q < 0 then str ''-'' @ to_string_pos (- q)
      else to_string_pos q)"

text \<open>
  \<^verbatim>\<open>Number.prototype.toFixed(f)\<close>, for \<open>f\<close> from 0 to 100 (the handler passes 2).
  A non-finite Number gives its name. Otherwise the sign is taken off the real value (so
  the negative zero has none), a value of at least \<open>10^21\<close> is printed by Number::toString,
  and a smaller one as the integer \<open>n\<close> nearest to \<open>x * 10^f\<close> (the larger on a tie),
  padded with zeros to more than \<open>f\<close> digits, with the point before the last \<open>f\<close>.
\<close>

definition fixed_pos :: "nat \<Rightarrow> rat \<Rightarrow> js_string" where
  "fixed_pos f x =
     (let n = \<lfloor>x * 10 ^ f + 1 / 2\<rfloor>;
          m = digits n
      in if f \<noteq> 0 then
           (let m' = (if length m \<le> f then zeros (f + 1 - length m) @ m else m);
                k = length m'
            in take (k - f) m' @ str ''.'' @ drop (k - f) m')
         else m)"

fun toFixed :: "nat \<Rightarrow> jsnum \<Rightarrow> js_string" where
  "toFixed f NaN = str ''NaN''"
| "toFixed f PosInf = str ''Infinity''"
| "toFixed f NegInf = str ''-Infinity''"
| "toFixed f NegZero = fixed_pos f 0"
| "toFixed f (Fin q) =
     (let s = (if q < 0 then str ''-'' else []);
          x = \<bar>q\<bar>
      in if 10 ^ 21 \<le> x then s @ to_string (Fin x) else s @ fixed_pos f x)"

subsection \<open>Strings to Numbers\<close>

text \<open>
  StringToNumber, which \<^verbatim>\<open>/\<close> and \<^verbatim>\<open>>=\<close> apply to a string operand: the trimmed text
  is empty (zero), a signed decimal literal with optional fraction and exponent,
  a signed \<^verbatim>\<open>Infinity\<close>, or an unsigned binary, octal or hexadecimal integer; anything
  else is NaN. The value is rounded to binary64; a zero keeps the sign written.
\<close>

definition is_digit :: "16 word \<Rightarrow> bool" where
  "is_digit c \<longleftrightarrow> 0x30 \<le> c \<and> c \<le> 0x39"

definition hex_val :: "16 word \<Rightarrow> int option" where
  "hex_val c =
     (if 0x30 \<le> c \<and> c \<le> 0x39 then Some (uint c - 0x30)
      else if 0x41 \<le> c \<and> c \<le> 0x46 then Some (uint c - 0x41 + 10)
      else if 0x61 \<le> c \<and> c \<le> 0x66 then Some (uint c - 0x61 + 10)
      else None)"

text \<open>The value of a digit sequence in a radix; \<open>None\<close> when it is empty or has a
  code unit that is no digit of the radix.\<close>

fun radix_acc :: "int \<Rightarrow> int \<Rightarrow> js_string \<Rightarrow> int option" where
  "radix_acc r acc [] = Some acc"
| "radix_acc r acc (c # cs) =
     (case hex_val c of
        None \<Rightarrow> None
      | Some d \<Rightarrow> if d < r then radix_acc r (acc * r + d) cs else None)"

definition radix_val :: "int \<Rightarrow> js_string \<Rightarrow> int option" where
  "radix_val r cs = (if cs = [] then None else radix_acc r 0 cs)"

definition dec_val :: "js_string \<Rightarrow> int" where
  "dec_val cs = foldl (\<lambda>acc c. acc * 10 + (uint c - 0x30)) 0 cs"

text \<open>The exponent part: nothing, or \<^verbatim>\<open>e\<close>/\<^verbatim>\<open>E\<close>, an optional sign and at least one
  digit.\<close>

definition exponent_part :: "js_string \<Rightarrow> int option" where
  "exponent_part r =
     (case r of
        [] \<Rightarrow> Some 0
      | c # r' \<Rightarrow>
          if c = 0x65 \<or> c = 0x45 then
            (let negative = (r' \<noteq> [] \<and> hd r' = 0x2D);
                 ds = (if r' \<noteq> [] \<and> (hd r' = 0x2D \<or> hd r' = 0x2B) then tl r' else r')
             in if ds \<noteq> [] \<and> list_all is_digit ds
                then Some (if negative then - dec_val ds else dec_val ds)
                else None)
          else None)"

text \<open>The mathematical value of an unsigned decimal literal.\<close>

definition unsigned_decimal :: "js_string \<Rightarrow> rat option" where
  "unsigned_decimal s =
     (let ip = takeWhile is_digit s;
          r1 = dropWhile is_digit s;
          dot = (r1 \<noteq> [] \<and> hd r1 = 0x2E);
          fp = (if dot then takeWhile is_digit (tl r1) else []);
          r2 = (if dot then dropWhile is_digit (tl r1) else r1)
      in if ip = [] \<and> fp = [] then None
         else
           (case exponent_part r2 of
              None \<Rightarrow> None
            | Some e \<Rightarrow>
                Some ((of_int (dec_val ip) + of_int (dec_val fp) / 10 ^ length fp) * pow 10 e)))"

definition signed_literal :: "bool \<Rightarrow> js_string \<Rightarrow> jsnum" where
  "signed_literal negative s =
     (if s = str ''Infinity'' then signed_inf negative
      else
        (case unsigned_decimal s of
           None \<Rightarrow> NaN
         | Some mv \<Rightarrow>
             if mv = 0 then signed_zero negative
             else round_double (if negative then - mv else mv)))"

definition radix_literal :: "int \<Rightarrow> js_string \<Rightarrow> jsnum" where
  "radix_literal r cs =
     (case radix_val r cs of None \<Rightarrow> NaN | Some n \<Rightarrow> round_double (of_int n))"

definition to_number :: "js_string \<Rightarrow> jsnum" where
  "to_number s0 =
     (let s = trim s0 in
      if s = [] then Fin 0
      else if take 2 s = str ''0x'' \<or> take 2 s = str ''0X'' then radix_literal 16 (drop 2 s)
      else if take 2 s = str ''0o'' \<or> take 2 s = str ''0O'' then radix_literal 8 (drop 2 s)
      else if take 2 s = str ''0b'' \<or> take 2 s = str ''0B'' then radix_literal 2 (drop 2 s)
      else if hd s = 0x2D then signed_literal True (tl s)
      else if hd s = 0x2B then signed_literal False (tl s)
      else signed_literal False s)"

subsection \<open>Arrays\<close>

text \<open>
  The elements the chart's data arrays hold: a Number, \<^verbatim>\<open>null\<close>, or the hole of an
  array slot never written. \<^verbatim>\<open>new Array(len)\<close> makes \<open>len\<close> holes and throws a RangeError
  unless \<open>len\<close> is an integer from 0 to \<open>2^32 - 1\<close>; \<^verbatim>\<open>fill(v)\<close> writes \<open>v\<close> to every slot.
\<close>

datatype js_error = TypeError | SyntaxError | RangeError

datatype datum = Null | Hole | Num jsnum

definition new_Array :: "int \<Rightarrow> js_error + datum list" where
  "new_Array len =
     (if 0 \<le> len \<and> len < 2 ^ 32 then Inr (replicate (nat len) Hole) else Inl RangeError)"

definition fill :: "datum \<Rightarrow> datum list \<Rightarrow> datum list" where
  "fill v xs = map (\<lambda>_. v) xs"

subsection \<open>The page, the chart objects and the requests\<close>

text \<open>
  The elements the handler touches, each by the properties it reads or writes: the
  value of \<^verbatim>\<open>ticker-input\<close>; the text and inline \<^verbatim>\<open>display\<close> of \<^verbatim>\<open>error-message\<close>; the
  inline \<^verbatim>\<open>display\<close> of \<^verbatim>\<open>results-section\<close>, \<^verbatim>\<open>info-section\<close>, \<^verbatim>\<open>.btn-text\<close> and
  \<^verbatim>\<open>.btn-loading\<close>; the text of the six result elements; the class name of the badge.
  The elements are taken to exist, as the page that loads the script provides them.
\<close>

record page =
  ticker_input_value :: js_string
  error_message_innerText :: js_string
  error_message_display :: js_string
  results_section_display :: js_string
  info_section_display :: js_string
  btn_text_display :: js_string
  btn_loading_display :: js_string
  ticker_display_innerText :: js_string
  current_price_innerText :: js_string
  predicted_price_innerText :: js_string
  price_change_innerText :: js_string
  percent_change_innerText :: js_string
  change_badge_innerText :: js_string
  change_badge_className :: js_string

text \<open>The configuration object passed to \<^verbatim>\<open>new Chart\<close> (lines 65 to 95).\<close>

record dataset =
  label :: js_string
  data :: "datum list"
  borderColor :: js_string
  borderDash :: "jsnum list option"
  tension :: jsnum

record chart_options =
  responsive :: bool
  legend_display :: bool
  x_title_display :: bool
  x_title_text :: js_string
  y_title_display :: bool
  y_title_text :: js_string

record chart_config =
  chart_type :: js_string
  chart_labels :: "js_string list"
  datasets :: "dataset list"
  options :: chart_options

text \<open>
  A chart object, as far as the handler can tell: what it was constructed with and
  whether \<^verbatim>\<open>destroy()\<close> has been called on it. The chart objects constructed so far are
  kept in construction order; a reference to one is its position. The charting library
  is taken to be loaded, and its constructor and \<^verbatim>\<open>destroy()\<close> not to throw.
\<close>

record chart =
  config :: chart_config
  destroyed :: bool

text \<open>The request \<^verbatim>\<open>fetch\<close> is called with; the body is kept as the object that
  \<^verbatim>\<open>JSON.stringify\<close> serialises.\<close>

record request =
  url :: js_string
  http_method :: js_string
  content_type :: js_string
  body_ticker :: js_string
  body_days :: jsnum
  body_window :: jsnum

record state = page +
  stockChart :: "nat option"
  charts :: "chart list"
  requests :: "request list"

text \<open>
  The decoded response body, typed as the endpoint's contract has it: a body whose
  fields are missing or of another type is outside this model. \<open>error\<close> is \<open>None\<close> when
  the body has no such field. Of a body with an error field that is not empty the
  handler reads nothing else.
\<close>

record history_data =
  dates :: "js_string list"
  closes :: "jsnum list"

record prediction =
  date :: js_string
  price :: jsnum

record response =
  error :: "js_string option"
  ticker :: js_string
  last_close :: jsnum
  predicted_price :: jsnum
  history :: history_data
  predicted :: "prediction list"

text \<open>
  How the awaited network call ends: \<^verbatim>\<open>fetch\<close> rejects (no connection), or it resolves
  and \<^verbatim>\<open>response.json()\<close> rejects (the body is no JSON), or a body is decoded.
\<close>

datatype reply = FetchRejected | JsonRejected | Decoded response

subsection \<open>The handler\<close>

text \<open>Line 1: the script is loaded into a page and \<^verbatim>\<open>stockChart\<close> starts as \<^verbatim>\<open>null\<close>.\<close>

definition on_load :: "page \<Rightarrow> state" where
  "on_load p =
     \<lparr> ticker_input_value = ticker_input_value p,
       error_message_innerText = error_message_innerText p,
       error_message_display = error_message_display p,
       results_section_display = results_section_display p,
       info_section_display = info_section_display p,
       btn_text_display = btn_text_display p,
       btn_loading_display = btn_loading_display p,
       ticker_display_innerText = ticker_display_innerText p,
       current_price_innerText = current_price_innerText p,
       predicted_price_innerText = predicted_price_innerText p,
       price_change_innerText = price_change_innerText p,
       percent_change_innerText = percent_change_innerText p,
       change_badge_innerText = change_badge_innerText p,
       change_badge_className = change_badge_className p,
       stockChart = None, charts = [], requests = [] \<rparr>"

text \<open>The two statements that show a message (lines 10-11, 32-33 and 98-99).\<close>

definition show_error :: "js_string \<Rightarrow> state \<Rightarrow> state" where
  "show_error msg s =
     s\<lparr> error_message_innerText := msg, error_message_display := str ''block'' \<rparr>"

text \<open>Lines 23 to 27: the one request the handler sends.\<close>

definition predict_request :: "js_string \<Rightarrow> request" where
  "predict_request t =
     \<lparr> url = str ''http://127.0.0.1:5000/predict'',
       http_method = str ''POST'',
       content_type = str ''application/json'',
       body_ticker = t, body_days = Fin 1, body_window = Fin 5 \<rparr>"

text \<open>
  Lines 4 to 27, up to the suspension at \<^verbatim>\<open>await fetch\<close>. The result says whether the
  handler is now suspended (\<open>True\<close>) or has returned (\<open>False\<close>).
\<close>

definition click_start :: "state \<Rightarrow> state \<times> bool" where
  "click_start s =
     (let ticker = trim (ticker_input_value s) in
      if ticker = [] then
        (show_error (str ''Please enter a stock ticker!'') s, False)
      else
        (s\<lparr> error_message_display := str ''none'',
            btn_text_display := str ''none'',
            btn_loading_display := str ''inline-flex'',
            requests := requests s @ [predict_request ticker] \<rparr>, True))"

text \<open>Lines 38 to 55: the prediction card and the two sections.\<close>

definition change :: "response \<Rightarrow> js_string" where
  "change d = toFixed 2 (js_sub (predicted_price d) (last_close d))"

definition percent :: "response \<Rightarrow> js_string" where
  "percent d = toFixed 2 (js_mul (js_div (to_number (change d)) (last_close d)) (Fin 100))"

definition bullish :: "response \<Rightarrow> bool" where
  "bullish d = js_ge (to_number (change d)) (Fin 0)"

definition fill_card :: "response \<Rightarrow> state \<Rightarrow> state" where
  "fill_card d s =
     s\<lparr> ticker_display_innerText := ticker d,
        current_price_innerText := str ''$'' @ to_string (last_close d),
        predicted_price_innerText := str ''$'' @ to_string (predicted_price d),
        price_change_innerText := str ''$'' @ change d,
        percent_change_innerText := percent d @ str ''%'',
        change_badge_innerText :=
          (if bullish d then str ''Bullish '' @ [0x2191] else str ''Bearish '' @ [0x2193]),
        change_badge_className :=
          str ''badge '' @ (if bullish d then str ''positive'' else str ''negative''),
        results_section_display := str ''block'',
        info_section_display := str ''none'' \<rparr>"

text \<open>Lines 58 and 59. \<open>prices\<close> is computed and not used afterwards.\<close>

definition labels :: "response \<Rightarrow> js_string list" where
  "labels d = dates (history d) @ map date (predicted d)"

definition prices :: "response \<Rightarrow> jsnum list" where
  "prices d = closes (history d) @ map price (predicted d)"

text \<open>Line 78: the data of the predicted series.\<close>

definition predicted_data :: "response \<Rightarrow> js_error + datum list" where
  "predicted_data d =
     (case new_Array (int (length (closes (history d))) - 1) of
        Inl e \<Rightarrow> Inl e
      | Inr a \<Rightarrow> Inr (fill Null a @ [Num (last_close d)] @ map (\<lambda>p. Num (price p)) (predicted d)))"

text \<open>Lines 65 to 94: the configuration object, whose evaluation can throw at line 78.\<close>

definition new_config :: "response \<Rightarrow> js_string list \<Rightarrow> js_error + chart_config" where
  "new_config d ls =
     (case predicted_data d of
        Inl e \<Rightarrow> Inl e
      | Inr pd \<Rightarrow>
          Inr \<lparr> chart_type = str ''line'',
                chart_labels = ls,
                datasets =
                  [ \<lparr> label = str ''Historical'', data = map Num (closes (history d)),
                      borderColor = str ''blue'', borderDash = None,
                      tension = round_double (2 / 10) \<rparr>,
                    \<lparr> label = str ''Predicted'', data = pd,
                      borderColor = str ''red'', borderDash = Some [Fin 5, Fin 5],
                      tension = round_double (2 / 10) \<rparr> ],
                options =
                  \<lparr> responsive = True, legend_display = True,
                    x_title_display = True, x_title_text = str ''Date'',
                    y_title_display = True, y_title_text = str ''Price (USD)'' \<rparr> \<rparr>)"

text \<open>\<^verbatim>\<open>c.destroy()\<close> and \<^verbatim>\<open>stockChart = new Chart(ctx, cfg)\<close>.\<close>

definition destroy :: "nat \<Rightarrow> state \<Rightarrow> state" where
  "destroy c s =
     (if c < length (charts s)
      then s\<lparr> charts := (charts s)[c := (charts s ! c)\<lparr> destroyed := True \<rparr>] \<rparr>
      else s)"

definition new_Chart :: "chart_config \<Rightarrow> state \<Rightarrow> state" where
  "new_Chart cfg s =
     s\<lparr> stockChart := Some (length (charts s)),
        charts := charts s @ [\<lparr> config = cfg, destroyed = False \<rparr>] \<rparr>"

text \<open>Line 62: \<^verbatim>\<open>if (stockChart) stockChart.destroy()\<close>.\<close>

definition destroy_old :: "state \<Rightarrow> state" where
  "destroy_old s = (case stockChart s of None \<Rightarrow> s | Some c \<Rightarrow> destroy c s)"

text \<open>
  Lines 58 to 95. The old chart is destroyed first (line 62); the configuration is
  evaluated next, and only when that has not thrown is the chart constructed and
  assigned. The first component is the exception thrown, if any.
\<close>

definition render_chart :: "response \<Rightarrow> state \<Rightarrow> js_error option \<times> state" where
  "render_chart d s =
     (let ls = labels d;
          ps = prices d;
          s1 = destroy_old s
      in case new_config d ls of
           Inl e \<Rightarrow> (Some e, s1)
         | Inr cfg \<Rightarrow> (None, new_Chart cfg s1))"

text \<open>
  The \<^verbatim>\<open>try\<close> block from the point where the awaited call settles (lines 23 to 95).
  \<^verbatim>\<open>data.error\<close> is truthy when the field is a string that is not empty.
\<close>

definition try_block :: "reply \<Rightarrow> state \<Rightarrow> js_error option \<times> state" where
  "try_block r s =
     (case r of
        FetchRejected \<Rightarrow> (Some TypeError, s)
      | JsonRejected \<Rightarrow> (Some SyntaxError, s)
      | Decoded d \<Rightarrow>
          (case error d of
             None \<Rightarrow> render_chart d (fill_card d s)
           | Some e \<Rightarrow>
               if e \<noteq> [] then (None, show_error e s)
               else render_chart d (fill_card d s)))"

text \<open>Lines 97 to 104: \<^verbatim>\<open>catch\<close> and \<^verbatim>\<open>finally\<close>.\<close>

definition catch_block :: "js_error option \<times> state \<Rightarrow> state" where
  "catch_block r =
     (case r of
        (None, s) \<Rightarrow> s
      | (Some err, s) \<Rightarrow> show_error (str ''Error connecting to server.'') s)"

definition finally_block :: "state \<Rightarrow> state" where
  "finally_block s =
     s\<lparr> btn_text_display := str ''inline'', btn_loading_display := str ''none'' \<rparr>"

text \<open>The rest of a suspended handler, run when the awaited call has settled.\<close>

definition click_finish :: "reply \<Rightarrow> state \<Rightarrow> state" where
  "click_finish r s = finally_block (catch_block (try_block r s))"

text \<open>One click whose network call settles before anything else happens.\<close>

definition handler :: "reply \<Rightarrow> state \<Rightarrow> state" where
  "handler r s =
     (case click_start s of
        (s', False) \<Rightarrow> s'
      | (s', True) \<Rightarrow> click_finish r s')"

text \<open>
  What can happen to a loaded page: the user edits the ticker field, the user clicks
  the button, or the network call of a suspended handler settles. Between its
  suspension and its end a handler does not run, so other clicks can start and end
  meanwhile; the second component counts the suspended handlers. The two awaits of the
  handler have nothing between them and are one suspension here.
\<close>

datatype event = Input js_string | Click | Settle reply

fun step :: "state \<times> nat \<Rightarrow> event \<Rightarrow> state \<times> nat" where
  "step (s, n) (Input t) = (s\<lparr> ticker_input_value := t \<rparr>, n)"
| "step (s, n) Click =
     (case click_start s of
        (s', False) \<Rightarrow> (s', n)
      | (s', True) \<Rightarrow> (s', Suc n))"
| "step (s, n) (Settle r) = (if n = 0 then (s, n) else (click_finish r s, n - 1))"

definition run :: "event list \<Rightarrow> state \<times> nat \<Rightarrow> state \<times> nat" where
  "run evs c = foldl step c evs"

text \<open>The chart objects alive: constructed and not destroyed.\<close>

definition live_charts :: "state \<Rightarrow> chart list" where
  "live_charts s = filter (\<lambda>c. \<not> destroyed c) (charts s)"

text \<open>The button in its normal look, as the \<^verbatim>\<open>finally\<close> block leaves it.\<close>

definition button_normal :: "state \<Rightarrow> bool" where
  "button_normal s \<longleftrightarrow>
     btn_text_display s = str ''inline'' \<and> btn_loading_display s = str ''none''"

text \<open>The button in its loading look, as lines 19 and 20 leave it.\<close>

definition button_loading :: "state \<Rightarrow> bool" where
  "button_loading s \<longleftrightarrow>
     btn_text_display s = str ''none'' \<and> btn_loading_display s = str ''inline-flex''"

text \<open>A page with nothing written yet: no inline style set, no text.\<close>

definition blank_page :: page where
  "blank_page =
     \<lparr> ticker_input_value = [], error_message_innerText = [], error_message_display = [],
       results_section_display = [], info_section_display = [], btn_text_display = [],
       btn_loading_display = [], ticker_display_innerText = [],
       current_price_innerText = [], predicted_price_innerText = [],
       price_change_innerText = [], percent_change_innerText = [],
       change_badge_innerText = [], change_badge_className = [] \<rparr>"

subsection \<open>What the claims speak of\<close>

text \<open>The six result text fields, in the order the handler writes them.\<close>

definition result_fields :: "state \<Rightarrow> js_string list" where
  "result_fields s =
     [ticker_display_innerText s, current_price_innerText s, predicted_price_innerText s,
      price_change_innerText s, percent_change_innerText s, change_badge_innerText s]"

text \<open>
  Everything a successful response renders: the six fields, the badge's class, the
  visibility of the two sections, the chart reference and the chart objects.
\<close>

definition rendering ::
  "state \<Rightarrow> js_string list \<times> js_string \<times> js_string \<times> js_string \<times> nat option \<times> chart list" where
  "rendering s =
     (result_fields s, change_badge_className s, results_section_display s,
      info_section_display s, stockChart s, charts s)"

text \<open>A remote failure: the call or the decoding threw, or the body reports an error.\<close>

fun remote_failure :: "reply \<Rightarrow> bool" where
  "remote_failure FetchRejected = True"
| "remote_failure JsonRejected = True"
| "remote_failure (Decoded d) = (case error d of None \<Rightarrow> False | Some e \<Rightarrow> e \<noteq> [])"

text \<open>A decoded body that reports no error: the field is absent or the empty string.\<close>

definition error_free :: "response \<Rightarrow> bool" where
  "error_free d \<longleftrightarrow> (case error d of None \<Rightarrow> True | Some e \<Rightarrow> e = [])"

text \<open>
  The shape the chart objects keep: every chart but the one constructed last has been
  destroyed, and \<^verbatim>\<open>stockChart\<close> refers to the one constructed last, if there is one.
\<close>

definition chart_inv :: "state \<Rightarrow> bool" where
  "chart_inv s \<longleftrightarrow>
     list_all destroyed (butlast (charts s)) \<and>
     stockChart s = (if charts s = [] then None else Some (length (charts s) - 1))"

text \<open>
  Every array of the language has fewer than \<open>2^32\<close> elements; a well-formed body is
  one whose arrays, and the arrays the handler builds from them, are within that bound.
\<close>

definition well_formed :: "response \<Rightarrow> bool" where
  "well_formed d \<longleftrightarrow>
     length (dates (history d)) + length (predicted d) < 2 ^ 32 \<and>
     length (closes (history d)) + length (predicted d) < 2 ^ 32"

text \<open>
  Concrete inputs: a freshly loaded blank page with a text typed into the ticker field;
  a body with one predicted entry and the closes given; a body that reports an error.
\<close>

definition typed :: "string \<Rightarrow> state" where
  "typed t = (on_load blank_page)\<lparr> ticker_input_value := str t \<rparr>"

definition sample :: "jsnum \<Rightarrow> jsnum \<Rightarrow> jsnum list \<Rightarrow> response" where
  "sample lc pp cs =
     \<lparr> error = None, ticker = str ''AAPL'', last_close = lc, predicted_price = pp,
       history = \<lparr> dates = map (\<lambda>c. str ''2024-01-02'') cs, closes = cs \<rparr>,
       predicted = [\<lparr> date = str ''2024-01-03'', price = pp \<rparr>] \<rparr>"

definition failed :: "string \<Rightarrow> response" where
  "failed msg = (sample (Fin 0) (Fin 0) [])\<lparr> error := Some (str msg) \<rparr>"

text \<open>
  The state in which a first click is suspended at its network call and the user has
  emptied the ticker field meanwhile.
\<close>

definition pending_cleared :: state where
  "pending_cleared = fst (run [Input (str ''AAPL''), Click, Input []] (on_load blank_page, 0))"

section \<open>Properties\<close>

subsection \<open>Evaluating Numbers and strings\<close>

lemma floor_rat_numeral:
  "\<lfloor>(numeral a :: rat) / numeral b\<rfloor> = numeral a div numeral b"
  using floor_divide_of_int_eq [of "numeral a" "numeral b", where ?'a = rat] by simp

lemma floor_rat_one_numeral:
  "\<lfloor>(1 :: rat) / numeral b\<rfloor> = 1 div numeral b"
  using floor_divide_of_int_eq [of 1 "numeral b", where ?'a = rat] by simp

lemma ceiling_rat_numeral:
  "\<lceil>(numeral a :: rat) / numeral b\<rceil> = - (- numeral a div numeral b)"
  using floor_divide_of_int_eq [of "- numeral a" "numeral b", where ?'a = rat]
  by (simp add: ceiling_def)

lemma replicate_numeral:
  "replicate (numeral k) x = x # replicate (pred_numeral k) x"
  by (simp add: numeral_eq_Suc)

lemmas num_eval =
  js_sub_def js_add_def js_mul_def js_div_def js_ge_def round_double_def round_pos_def
  ilog_def pow_def round_half_even_def signed_inf_def signed_zero_def Let_def
  floor_rat_numeral floor_rat_one_numeral ceiling_rat_numeral

lemmas str_eval =
  str_def digit_char_def zeros_def fixed_pos_def is_digit_def trim_def is_white_space_def
  to_number_def signed_literal_def unsigned_decimal_def exponent_part_def dec_val_def
  replicate_numeral

text \<open>
  A value halfway between two sixteen-digit decimals that both round to it: the even
  one is printed.
\<close>

lemma to_string_tie_even: "to_string (Fin (524291 / 65536)) = str ''8.000045776367188''"
  by (simp add: num_eval str_eval to_string_pos_def shortest_def dec_exp_def best_digits_def
      format_digits_def upt_rec)

subsection \<open>The two ways a click starts\<close>

lemma click_start_empty:
  "trim (ticker_input_value s) = [] \<Longrightarrow>
   click_start s = (show_error (str ''Please enter a stock ticker!'') s, False)"
  by (simp add: click_start_def)

lemma click_start_sent:
  "trim (ticker_input_value s) \<noteq> [] \<Longrightarrow>
   click_start s =
     (s\<lparr> error_message_display := str ''none'',
         btn_text_display := str ''none'',
         btn_loading_display := str ''inline-flex'',
         requests := requests s @ [predict_request (trim (ticker_input_value s))] \<rparr>, True)"
  by (simp add: click_start_def)

lemma typed_blank: "trim (ticker_input_value (typed ''   '')) = []"
  by (simp add: typed_def str_eval)

lemma typed_AAPL: "trim (ticker_input_value (typed '' AAPL '')) = str ''AAPL''"
  by (simp add: typed_def str_eval)

subsection \<open>Validation\<close>

text \<open>
  C1. A click with a ticker field that is empty after trimming shows the message
  \<^verbatim>\<open>Please enter a stock ticker!\<close> and ends: the state afterwards differs from the state
  before in the text and the display of the error element only. In particular no
  request has been sent, and no handler is left suspended.
\<close>

theorem empty_ticker_shows_validation_message:
  assumes "trim (ticker_input_value s) = []"
  shows "handler r s =
           s\<lparr> error_message_innerText := str ''Please enter a stock ticker!'',
              error_message_display := str ''block'' \<rparr>
         \<and> requests (handler r s) = requests s
         \<and> step (s, n) Click = (handler r s, n)"
  using assms by (simp add: handler_def click_start_empty show_error_def)

theorem empty_ticker_shows_validation_message_witness:
  "trim (ticker_input_value (typed ''   '')) = []
   \<and> handler FetchRejected (typed ''   '') =
       (typed ''   '')\<lparr> error_message_innerText := str ''Please enter a stock ticker!'',
                        error_message_display := str ''block'' \<rparr>
   \<and> requests (handler FetchRejected (typed ''   '')) = []"
  using empty_ticker_shows_validation_message [OF typed_blank, of FetchRejected 0]
  by (simp add: typed_blank) (simp add: typed_def on_load_def)

subsection \<open>What ends a suspended handler\<close>

lemma click_finish_rejected:
  "r = FetchRejected \<or> r = JsonRejected \<Longrightarrow>
   click_finish r s =
     s\<lparr> error_message_innerText := str ''Error connecting to server.'',
        error_message_display := str ''block'',
        btn_text_display := str ''inline'',
        btn_loading_display := str ''none'' \<rparr>"
  by (auto simp: click_finish_def try_block_def catch_block_def finally_block_def
      show_error_def)

lemma click_finish_error:
  "error d = Some e \<Longrightarrow> e \<noteq> [] \<Longrightarrow>
   click_finish (Decoded d) s =
     s\<lparr> error_message_innerText := e,
        error_message_display := str ''block'',
        btn_text_display := str ''inline'',
        btn_loading_display := str ''none'' \<rparr>"
  by (simp add: click_finish_def try_block_def catch_block_def finally_block_def
      show_error_def)

lemma try_block_error_free:
  "error_free d \<Longrightarrow> try_block (Decoded d) s = render_chart d (fill_card d s)"
  by (simp add: try_block_def error_free_def split: option.splits)

lemma handler_sent:
  "trim (ticker_input_value s) \<noteq> [] \<Longrightarrow>
   handler r s =
     click_finish r
       (s\<lparr> error_message_display := str ''none'',
           btn_text_display := str ''none'',
           btn_loading_display := str ''inline-flex'',
           requests := requests s @ [predict_request (trim (ticker_input_value s))] \<rparr>)"
  by (simp add: handler_def click_start_sent)

lemma handler_empty:
  "trim (ticker_input_value s) = [] \<Longrightarrow>
   handler r s = show_error (str ''Please enter a stock ticker!'') s"
  by (simp add: handler_def click_start_empty)

subsection \<open>The error field\<close>

text \<open>
  C2. When the request was sent and the decoded body has an error field that is not
  empty, the handler shows that string as it is and ends. The state afterwards differs
  from the state before in the error element, the button (reset by \<^verbatim>\<open>finally\<close>) and
  the request log only; so the two sections, the six result fields and the chart
  reference are as they were.
\<close>

theorem error_field_shown_verbatim:
  assumes "trim (ticker_input_value s) \<noteq> []" and "error d = Some e" and "e \<noteq> []"
  shows "handler (Decoded d) s =
           s\<lparr> error_message_innerText := e,
              error_message_display := str ''block'',
              btn_text_display := str ''inline'',
              btn_loading_display := str ''none'',
              requests := requests s @ [predict_request (trim (ticker_input_value s))] \<rparr>
         \<and> results_section_display (handler (Decoded d) s) = results_section_display s
         \<and> info_section_display (handler (Decoded d) s) = info_section_display s
         \<and> result_fields (handler (Decoded d) s) = result_fields s
         \<and> stockChart (handler (Decoded d) s) = stockChart s"
  using assms by (simp add: handler_sent click_finish_error result_fields_def)

theorem error_field_shown_verbatim_witness:
  "trim (ticker_input_value (typed '' AAPL '')) \<noteq> []
   \<and> error (failed ''No data found'') = Some (str ''No data found'')
   \<and> str ''No data found'' \<noteq> []
   \<and> error_message_innerText (handler (Decoded (failed ''No data found'')) (typed '' AAPL ''))
       = str ''No data found''
   \<and> result_fields (handler (Decoded (failed ''No data found'')) (typed '' AAPL ''))
       = result_fields (typed '' AAPL '')
   \<and> stockChart (handler (Decoded (failed ''No data found'')) (typed '' AAPL '')) = None"
proof -
  have t: "trim (ticker_input_value (typed '' AAPL '')) \<noteq> []"
    by (simp add: typed_AAPL str_def)
  have e: "error (failed ''No data found'') = Some (str ''No data found'')"
    by (simp add: failed_def)
  have n: "str ''No data found'' \<noteq> []"
    by (simp add: str_def)
  have c: "stockChart (typed '' AAPL '') = None"
    by (simp add: typed_def on_load_def)
  from error_field_shown_verbatim [OF t e n] t e n c show ?thesis
    by (simp add: result_fields_def)
qed

subsection \<open>Transport and parse failures\<close>

text \<open>
  C4. When the request was sent and \<^verbatim>\<open>fetch\<close> or \<^verbatim>\<open>response.json()\<close> throws, the
  exception is caught: the handler shows \<^verbatim>\<open>Error connecting to server.\<close> and the button
  is back in its normal look. Nothing else changes but the request log.
\<close>

theorem thrown_call_shows_connectivity_message:
  assumes "trim (ticker_input_value s) \<noteq> []" and "r = FetchRejected \<or> r = JsonRejected"
  shows "handler r s =
           s\<lparr> error_message_innerText := str ''Error connecting to server.'',
              error_message_display := str ''block'',
              btn_text_display := str ''inline'',
              btn_loading_display := str ''none'',
              requests := requests s @ [predict_request (trim (ticker_input_value s))] \<rparr>
         \<and> button_normal (handler r s)"
  using assms by (simp add: handler_sent click_finish_rejected button_normal_def)

theorem thrown_call_shows_connectivity_message_witness:
  "trim (ticker_input_value (typed '' AAPL '')) \<noteq> []
   \<and> error_message_innerText (handler FetchRejected (typed '' AAPL ''))
       = str ''Error connecting to server.''
   \<and> error_message_display (handler JsonRejected (typed '' AAPL '')) = str ''block''
   \<and> button_normal (handler FetchRejected (typed '' AAPL ''))
   \<and> button_normal (handler JsonRejected (typed '' AAPL ''))"
proof -
  have t: "trim (ticker_input_value (typed '' AAPL '')) \<noteq> []"
    by (simp add: typed_AAPL str_def)
  from thrown_call_shows_connectivity_message [OF t, of FetchRejected]
    thrown_call_shows_connectivity_message [OF t, of JsonRejected] t
  show ?thesis
    by (simp add: button_normal_def)
qed

subsection \<open>No partial rendering on a remote failure\<close>

text \<open>
  C8. A click that ends in a remote failure (the call or the decoding threw, or the
  body carries an error field that is not empty) renders nothing: the six result
  fields, the badge's class, the visibility of the two sections, the chart reference
  and the chart objects are all as they were before the click. This holds for the
  suspended handler from whatever state it resumes in, and for the whole click.
\<close>

theorem remote_failure_renders_nothing:
  assumes "remote_failure r"
  shows "rendering (click_finish r s) = rendering s \<and> rendering (handler r s) = rendering s"
proof -
  have fin: "rendering (click_finish r t) = rendering t" for t
  proof (cases r)
    case (Decoded d)
    with assms obtain e where "error d = Some e" and "e \<noteq> []"
      by (auto split: option.splits)
    with Decoded show ?thesis
      by (simp add: click_finish_error rendering_def result_fields_def)
  qed (simp_all add: click_finish_rejected rendering_def result_fields_def)
  have "rendering (handler r s) = rendering s"
  proof (cases "trim (ticker_input_value s) = []")
    case True
    then show ?thesis
      by (simp add: handler_empty show_error_def rendering_def result_fields_def)
  next
    case False
    then show ?thesis
      by (simp add: handler_sent fin) (simp add: rendering_def result_fields_def)
  qed
  with fin show ?thesis
    by simp
qed

theorem remote_failure_renders_nothing_witness:
  "remote_failure (Decoded (failed ''No data found''))
   \<and> rendering (handler (Decoded (failed ''No data found'')) (typed '' AAPL ''))
       = rendering (typed '' AAPL '')
   \<and> remote_failure JsonRejected
   \<and> rendering (handler JsonRejected (typed '' AAPL '')) = rendering (typed '' AAPL '')"
proof -
  have f: "remote_failure (Decoded (failed ''No data found''))"
    by (simp add: failed_def str_def)
  have j: "remote_failure JsonRejected"
    by simp
  from remote_failure_renders_nothing [OF f, of "typed '' AAPL ''"]
    remote_failure_renders_nothing [OF j, of "typed '' AAPL ''"] f j
  show ?thesis
    by simp
qed

subsection \<open>The button\<close>

lemma button_normal_click_finish: "button_normal (click_finish r s)"
  by (simp add: button_normal_def click_finish_def finally_block_def)

lemma pending_cleared_state:
  "pending_cleared =
     (on_load blank_page)\<lparr> ticker_input_value := [],
        error_message_display := str ''none'',
        btn_text_display := str ''none'',
        btn_loading_display := str ''inline-flex'',
        requests := [predict_request (str ''AAPL'')] \<rparr>"
  by (simp add: pending_cleared_def run_def click_start_def on_load_def blank_page_def
      str_eval Let_def)

lemma run_snoc: "run (evs @ [e]) c = step (run evs c) e"
  by (simp add: run_def)

lemma pending_cleared_run:
  "run [Input (str ''AAPL''), Click, Input []] (on_load blank_page, 0)
     = (pending_cleared, Suc 0)"
  by (simp add: pending_cleared_def run_def click_start_def on_load_def blank_page_def
      str_eval Let_def)

text \<open>
  C5, as the code has it. The \<^verbatim>\<open>finally\<close> block belongs to the \<^verbatim>\<open>try\<close> statement that
  starts after the validation, so it runs exactly on the paths that sent the request:
  an application error, a success or an exception all end with the button in its
  normal look. The validation failure returns before the button is touched and leaves
  both of its elements as they were.
\<close>

theorem button_reset_after_request:
  "(trim (ticker_input_value s) \<noteq> [] \<longrightarrow> button_normal (handler r s))
   \<and> (trim (ticker_input_value s) = [] \<longrightarrow>
        btn_text_display (handler r s) = btn_text_display s
        \<and> btn_loading_display (handler r s) = btn_loading_display s)
   \<and> button_normal (click_finish r s)"
  by (simp add: handler_sent handler_empty button_normal_click_finish show_error_def)

theorem button_reset_after_request_witness:
  "trim (ticker_input_value (typed '' AAPL '')) \<noteq> []
   \<and> button_normal (handler (Decoded (sample (Fin 100) (Fin 105) [Fin 99, Fin 100])) (typed '' AAPL ''))
   \<and> trim (ticker_input_value (typed ''   '')) = []
   \<and> btn_text_display (handler FetchRejected (typed ''   '')) = btn_text_display (typed ''   '')
   \<and> btn_loading_display (handler FetchRejected (typed ''   ''))
       = btn_loading_display (typed ''   '')"
proof -
  have t: "trim (ticker_input_value (typed '' AAPL '')) \<noteq> []"
    by (simp add: typed_AAPL str_def)
  from button_reset_after_request
         [of "typed '' AAPL ''" "Decoded (sample (Fin 100) (Fin 105) [Fin 99, Fin 100])"]
    button_reset_after_request [of "typed ''   ''" FetchRejected] t typed_blank
  show ?thesis
    by simp
qed

text \<open>
  C5 as stated fails on the validation path. A first click is suspended at its network
  call, with the button in its loading look; the user empties the field and clicks
  again. The second click ends at the validation, no cleanup runs, and the button is
  still in its loading look when that handler has returned.
\<close>

theorem validation_failure_skips_cleanup:
  "trim (ticker_input_value pending_cleared) = []
   \<and> button_loading (handler FetchRejected pending_cleared)
   \<and> \<not> button_normal (handler FetchRejected pending_cleared)
   \<and> \<not> button_normal
        (fst (run [Input (str ''AAPL''), Click, Input [], Click] (on_load blank_page, 0)))"
proof -
  have e: "trim (ticker_input_value pending_cleared) = []"
    by (simp add: pending_cleared_state trim_def)
  have h: "handler FetchRejected pending_cleared
             = show_error (str ''Please enter a stock ticker!'') pending_cleared"
    using e by (rule handler_empty)
  have l: "button_loading (handler FetchRejected pending_cleared)"
    unfolding h by (simp add: show_error_def button_loading_def pending_cleared_state)
  have n: "\<not> button_normal (handler FetchRejected pending_cleared)"
    unfolding h by (simp add: show_error_def button_normal_def pending_cleared_state str_def)
  have r: "fst (run [Input (str ''AAPL''), Click, Input [], Click] (on_load blank_page, 0))
             = handler FetchRejected pending_cleared"
    using run_snoc [of "[Input (str ''AAPL''), Click, Input []]" Click "(on_load blank_page, 0)"]
    by (simp add: pending_cleared_run click_start_empty [OF e] h)
  from e l n r show ?thesis
    by simp
qed

subsection \<open>The success path\<close>

text \<open>Destroying and constructing charts touches no page element and no request.\<close>

lemma render_chart_page:
  "result_fields (snd (render_chart d t)) = result_fields t
   \<and> change_badge_className (snd (render_chart d t)) = change_badge_className t
   \<and> results_section_display (snd (render_chart d t)) = results_section_display t
   \<and> info_section_display (snd (render_chart d t)) = info_section_display t
   \<and> error_message_innerText (snd (render_chart d t)) = error_message_innerText t
   \<and> error_message_display (snd (render_chart d t)) = error_message_display t
   \<and> requests (snd (render_chart d t)) = requests t"
  by (simp add: render_chart_def destroy_old_def destroy_def new_Chart_def
      result_fields_def Let_def split: sum.splits option.splits)

lemma fill_card_fields:
  "result_fields (fill_card d t) =
     [ticker d, str ''$'' @ to_string (last_close d), str ''$'' @ to_string (predicted_price d),
      str ''$'' @ change d, percent d @ str ''%'',
      if bullish d then str ''Bullish '' @ [0x2191] else str ''Bearish '' @ [0x2193]]
   \<and> change_badge_className (fill_card d t) =
       str ''badge '' @ (if bullish d then str ''positive'' else str ''negative'')
   \<and> results_section_display (fill_card d t) = str ''block''
   \<and> info_section_display (fill_card d t) = str ''none''"
  by (simp add: fill_card_def result_fields_def)

text \<open>
  Whatever the chart step does, a handler that got an error-free body ends with the
  card as \<open>fill_card\<close> wrote it.
\<close>

lemma click_finish_card:
  assumes "error_free d"
  shows "result_fields (click_finish (Decoded d) t) = result_fields (fill_card d t)"
    and "change_badge_className (click_finish (Decoded d) t)
           = change_badge_className (fill_card d t)"
    and "results_section_display (click_finish (Decoded d) t) = str ''block''"
    and "info_section_display (click_finish (Decoded d) t) = str ''none''"
proof -
  obtain x u where r: "render_chart d (fill_card d t) = (x, u)"
    by (cases "render_chart d (fill_card d t)")
  with render_chart_page [of d "fill_card d t"]
  have u: "result_fields u = result_fields (fill_card d t)"
    "change_badge_className u = change_badge_className (fill_card d t)"
    "results_section_display u = results_section_display (fill_card d t)"
    "info_section_display u = info_section_display (fill_card d t)"
    by simp_all
  have c: "click_finish (Decoded d) t = finally_block (catch_block (x, u))"
    using assms r by (simp add: click_finish_def try_block_error_free)
  show "result_fields (click_finish (Decoded d) t) = result_fields (fill_card d t)"
    unfolding c using u(1)
    by (cases x) (simp_all add: catch_block_def finally_block_def show_error_def
        result_fields_def)
  show "change_badge_className (click_finish (Decoded d) t)
          = change_badge_className (fill_card d t)"
    unfolding c using u(2)
    by (cases x) (simp_all add: catch_block_def finally_block_def show_error_def)
  show "results_section_display (click_finish (Decoded d) t) = str ''block''"
    unfolding c using u(3) fill_card_fields [of d t]
    by (cases x) (simp_all add: catch_block_def finally_block_def show_error_def)
  show "info_section_display (click_finish (Decoded d) t) = str ''none''"
    unfolding c using u(4) fill_card_fields [of d t]
    by (cases x) (simp_all add: catch_block_def finally_block_def show_error_def)
qed

lemma handler_card:
  assumes "trim (ticker_input_value s) \<noteq> []" and "error_free d"
  shows "result_fields (handler (Decoded d) s) =
           [ticker d, str ''$'' @ to_string (last_close d),
            str ''$'' @ to_string (predicted_price d),
            str ''$'' @ change d, percent d @ str ''%'',
            if bullish d then str ''Bullish '' @ [0x2191] else str ''Bearish '' @ [0x2193]]"
    and "change_badge_className (handler (Decoded d) s) =
           str ''badge '' @ (if bullish d then str ''positive'' else str ''negative'')"
    and "results_section_display (handler (Decoded d) s) = str ''block''"
    and "info_section_display (handler (Decoded d) s) = str ''none''"
  using assms
  by (simp_all add: handler_sent click_finish_card fill_card_fields)

subsection \<open>The change, the percentage and the badge\<close>

lemma change_105_100: "toFixed 2 (js_sub (Fin 105) (Fin 100)) = str ''5.00''"
  by (simp add: num_eval str_eval)

lemma change_95_100: "toFixed 2 (js_sub (Fin 95) (Fin 100)) = str ''-5.00''"
  by (simp add: num_eval str_eval)

lemma to_number_5: "to_number (str ''5.00'') = Fin 5"
  by (simp add: num_eval str_eval)

lemma to_number_minus_5: "to_number (str ''-5.00'') = Fin (- 5)"
  by (simp add: num_eval str_eval)

lemma percent_5_100: "toFixed 2 (js_mul (js_div (Fin 5) (Fin 100)) (Fin 100)) = str ''5.00''"
  by (simp add: num_eval str_eval)

lemma percent_minus_5_100:
  "toFixed 2 (js_mul (js_div (Fin (- 5)) (Fin 100)) (Fin 100)) = str ''-5.00''"
  by (simp add: num_eval str_eval)

lemma to_string_100: "to_string (Fin 100) = str ''100''"
  by (simp add: num_eval str_eval to_string_pos_def shortest_def dec_exp_def best_digits_def
      format_digits_def upt_rec)

lemma to_string_105: "to_string (Fin 105) = str ''105''"
  by (simp add: num_eval str_eval to_string_pos_def shortest_def dec_exp_def best_digits_def
      format_digits_def upt_rec)

lemma card_105_100:
  assumes "last_close d = Fin 100" and "predicted_price d = Fin 105"
  shows "change d = str ''5.00''" and "percent d = str ''5.00''" and "bullish d"
  using assms
  by (simp_all add: change_def percent_def bullish_def change_105_100 to_number_5
      percent_5_100 js_ge_def)

lemma card_95_100:
  assumes "last_close d = Fin 100" and "predicted_price d = Fin 95"
  shows "change d = str ''-5.00''" and "percent d = str ''-5.00''" and "\<not> bullish d"
  using assms
  by (simp_all add: change_def percent_def bullish_def change_95_100 to_number_minus_5
      percent_minus_5_100 js_ge_def)

text \<open>
  C3. For an error-free body with \<^verbatim>\<open>last_close\<close> 100: when \<^verbatim>\<open>predicted_price\<close> is 105 the
  handler writes \<^verbatim>\<open>$5.00\<close> to the price-change field and \<^verbatim>\<open>5.00%\<close> to the
  percent-change field, and the badge gets the text \<^verbatim>\<open>Bullish\<close> followed by the
  upwards arrow U+2191 and the class name \<^verbatim>\<open>badge positive\<close>; when \<^verbatim>\<open>predicted_price\<close> is
  95 the badge gets the text \<^verbatim>\<open>Bearish\<close> followed by the downwards arrow U+2193 and the
  class name \<^verbatim>\<open>badge negative\<close>. The class name has the fixed class \<^verbatim>\<open>badge\<close> in front
  of the class the claim names.
\<close>

theorem change_percent_and_badge:
  assumes "trim (ticker_input_value s) \<noteq> []" and "error_free d"
    and "last_close d = Fin 100"
  shows "(predicted_price d = Fin 105 \<longrightarrow>
            price_change_innerText (handler (Decoded d) s) = str ''$5.00''
            \<and> percent_change_innerText (handler (Decoded d) s) = str ''5.00%''
            \<and> change_badge_innerText (handler (Decoded d) s) = str ''Bullish '' @ [0x2191]
            \<and> change_badge_className (handler (Decoded d) s) = str ''badge positive'')
         \<and> (predicted_price d = Fin 95 \<longrightarrow>
            price_change_innerText (handler (Decoded d) s) = str ''$-5.00''
            \<and> percent_change_innerText (handler (Decoded d) s) = str ''-5.00%''
            \<and> change_badge_innerText (handler (Decoded d) s) = str ''Bearish '' @ [0x2193]
            \<and> change_badge_className (handler (Decoded d) s) = str ''badge negative'')"
proof -
  let ?s' = "handler (Decoded d) s"
  have f: "result_fields ?s' =
             [ticker d, str ''$'' @ to_string (last_close d),
              str ''$'' @ to_string (predicted_price d),
              str ''$'' @ change d, percent d @ str ''%'',
              if bullish d then str ''Bullish '' @ [0x2191] else str ''Bearish '' @ [0x2193]]"
    and c: "change_badge_className ?s' =
              str ''badge '' @ (if bullish d then str ''positive'' else str ''negative'')"
    using handler_card [OF assms(1,2)] by simp_all
  from f have p: "price_change_innerText ?s' = str ''$'' @ change d"
    and q: "percent_change_innerText ?s' = percent d @ str ''%''"
    and b: "change_badge_innerText ?s' =
              (if bullish d then str ''Bullish '' @ [0x2191] else str ''Bearish '' @ [0x2193])"
    by (simp_all add: result_fields_def)
  show ?thesis
    using card_105_100 [OF assms(3)] card_95_100 [OF assms(3)]
    by (auto simp: p q b c str_def)
qed

theorem change_percent_and_badge_witness:
  "trim (ticker_input_value (typed '' AAPL '')) \<noteq> []
   \<and> error_free (sample (Fin 100) (Fin 105) [Fin 99, Fin 100])
   \<and> price_change_innerText
        (handler (Decoded (sample (Fin 100) (Fin 105) [Fin 99, Fin 100])) (typed '' AAPL ''))
       = str ''$5.00''
   \<and> percent_change_innerText
        (handler (Decoded (sample (Fin 100) (Fin 105) [Fin 99, Fin 100])) (typed '' AAPL ''))
       = str ''5.00%''
   \<and> change_badge_className
        (handler (Decoded (sample (Fin 100) (Fin 105) [Fin 99, Fin 100])) (typed '' AAPL ''))
       = str ''badge positive''
   \<and> result_fields
        (handler (Decoded (sample (Fin 100) (Fin 105) [Fin 99, Fin 100])) (typed '' AAPL ''))
       = [str ''AAPL'', str ''$100'', str ''$105'', str ''$5.00'', str ''5.00%'',
          str ''Bullish '' @ [0x2191]]
   \<and> error_free (sample (Fin 100) (Fin 95) [Fin 99, Fin 100])
   \<and> change_badge_innerText
        (handler (Decoded (sample (Fin 100) (Fin 95) [Fin 99, Fin 100])) (typed '' AAPL ''))
       = str ''Bearish '' @ [0x2193]
   \<and> change_badge_className
        (handler (Decoded (sample (Fin 100) (Fin 95) [Fin 99, Fin 100])) (typed '' AAPL ''))
       = str ''badge negative''"
proof -
  have t: "trim (ticker_input_value (typed '' AAPL '')) \<noteq> []"
    by (simp add: typed_AAPL str_def)
  have e: "error_free (sample (Fin 100) pp cs)" for pp cs
    by (simp add: error_free_def sample_def)
  have l: "last_close (sample (Fin 100) pp cs) = Fin 100" for pp cs
    by (simp add: sample_def)
  have u: "predicted_price (sample (Fin 100) pp cs) = pp" for pp cs
    by (simp add: sample_def)
  have k: "ticker (sample (Fin 100) pp cs) = str ''AAPL''" for pp cs
    by (simp add: sample_def)
  have f: "result_fields
             (handler (Decoded (sample (Fin 100) (Fin 105) [Fin 99, Fin 100])) (typed '' AAPL ''))
           = [str ''AAPL'', str ''$100'', str ''$105'', str ''$5.00'', str ''5.00%'',
              str ''Bullish '' @ [0x2191]]"
    using card_105_100 [OF l u] to_string_100 to_string_105
    by (simp add: handler_card(1) [OF t e] l u k str_def)
  from change_percent_and_badge [OF t e l, of "Fin 105" "[Fin 99, Fin 100]"]
    change_percent_and_badge [OF t e l, of "Fin 95" "[Fin 99, Fin 100]"] t e f
  show ?thesis
    by (simp add: u)
qed

subsection \<open>A zero last close\<close>

lemma js_div_by_zero:
  "is_zero y \<Longrightarrow> js_div x y = NaN \<or> js_div x y = PosInf \<or> js_div x y = NegInf"
  by (cases y) (auto simp: js_div_def signed_inf_def)

lemma toFixed_times_100_not_finite:
  assumes "q = NaN \<or> q = PosInf \<or> q = NegInf"
  shows "toFixed 2 (js_mul q (Fin 100)) = str ''NaN''
         \<or> toFixed 2 (js_mul q (Fin 100)) = str ''Infinity''
         \<or> toFixed 2 (js_mul q (Fin 100)) = str ''-Infinity''"
  using assms by (auto simp: js_mul_def signed_inf_def)

lemma percent_zero_last_close:
  assumes "is_zero (last_close d)"
  shows "percent d = str ''NaN'' \<or> percent d = str ''Infinity''
         \<or> percent d = str ''-Infinity''"
  unfolding percent_def
  by (rule toFixed_times_100_not_finite) (rule js_div_by_zero [OF assms])

text \<open>
  C9. The division by \<^verbatim>\<open>last_close\<close> has no guard and cannot throw: on Numbers it is a
  total operation, and a zero divisor (of either sign) gives NaN or an infinity. So for
  an error-free body whose \<^verbatim>\<open>last_close\<close> is zero the handler goes on along the success
  path: it writes \<^verbatim>\<open>NaN%\<close>, \<^verbatim>\<open>Infinity%\<close> or \<^verbatim>\<open>-Infinity%\<close> to the percent-change field,
  writes the other fields of the card, and shows the results section.
\<close>

theorem zero_last_close_gives_non_finite_percent:
  assumes "trim (ticker_input_value s) \<noteq> []" and "error_free d"
    and "is_zero (last_close d)"
  shows "(percent_change_innerText (handler (Decoded d) s) = str ''NaN%''
          \<or> percent_change_innerText (handler (Decoded d) s) = str ''Infinity%''
          \<or> percent_change_innerText (handler (Decoded d) s) = str ''-Infinity%'')
         \<and> price_change_innerText (handler (Decoded d) s) = str ''$'' @ change d
         \<and> results_section_display (handler (Decoded d) s) = str ''block''
         \<and> info_section_display (handler (Decoded d) s) = str ''none''
         \<and> try_block (Decoded d) s = render_chart d (fill_card d s)"
proof -
  let ?s' = "handler (Decoded d) s"
  from handler_card(1) [OF assms(1,2)]
  have p: "price_change_innerText ?s' = str ''$'' @ change d"
    and q: "percent_change_innerText ?s' = percent d @ str ''%''"
    by (simp_all add: result_fields_def)
  from percent_zero_last_close [OF assms(3)]
  have "percent d @ str ''%'' = str ''NaN%'' \<or> percent d @ str ''%'' = str ''Infinity%''
        \<or> percent d @ str ''%'' = str ''-Infinity%''"
    by (auto simp: str_def)
  with p q handler_card(3,4) [OF assms(1,2)] try_block_error_free [OF assms(2)]
  show ?thesis
    by simp
qed

lemma handler_percent:
  assumes "trim (ticker_input_value s) \<noteq> []" and "error_free d"
  shows "percent_change_innerText (handler (Decoded d) s) = percent d @ str ''%''"
  using handler_card(1) [OF assms] by (simp add: result_fields_def)

lemma percent_5_0: "percent (sample (Fin 0) (Fin 5) cs) = str ''Infinity''"
  by (simp add: percent_def change_def sample_def num_eval str_eval)

lemma percent_0_0: "percent (sample (Fin 0) (Fin 0) cs) = str ''NaN''"
  by (simp add: percent_def change_def sample_def num_eval str_eval)

lemma percent_5_minus_0: "percent (sample NegZero (Fin 5) cs) = str ''-Infinity''"
  by (simp add: percent_def change_def sample_def num_eval str_eval)

text \<open>Each of the three renderings occurs: for 5 over 0, 0 over 0, and 5 over -0.\<close>

theorem zero_last_close_gives_non_finite_percent_witness:
  "trim (ticker_input_value (typed '' AAPL '')) \<noteq> []
   \<and> error_free (sample (Fin 0) (Fin 5) [Fin 0])
   \<and> is_zero (last_close (sample (Fin 0) (Fin 5) [Fin 0]))
   \<and> percent_change_innerText
        (handler (Decoded (sample (Fin 0) (Fin 5) [Fin 0])) (typed '' AAPL ''))
       = str ''Infinity%''
   \<and> results_section_display
        (handler (Decoded (sample (Fin 0) (Fin 5) [Fin 0])) (typed '' AAPL ''))
       = str ''block''
   \<and> percent_change_innerText
        (handler (Decoded (sample (Fin 0) (Fin 0) [Fin 0])) (typed '' AAPL ''))
       = str ''NaN%''
   \<and> percent_change_innerText
        (handler (Decoded (sample NegZero (Fin 5) [Fin 0])) (typed '' AAPL ''))
       = str ''-Infinity%''"
proof -
  have t: "trim (ticker_input_value (typed '' AAPL '')) \<noteq> []"
    by (simp add: typed_AAPL str_def)
  have e: "error_free (sample lc pp cs)" for lc pp cs
    by (simp add: error_free_def sample_def)
  have z: "is_zero (last_close (sample (Fin 0) (Fin 5) [Fin 0]))"
    by (simp add: sample_def)
  have i: "percent_change_innerText
          (handler (Decoded (sample (Fin 0) (Fin 5) [Fin 0])) (typed '' AAPL ''))
        = str ''Infinity%''"
    by (simp add: handler_percent [OF t e] percent_5_0 str_def)
  have n: "percent_change_innerText
          (handler (Decoded (sample (Fin 0) (Fin 0) [Fin 0])) (typed '' AAPL ''))
        = str ''NaN%''"
    by (simp add: handler_percent [OF t e] percent_0_0 str_def)
  have m: "percent_change_innerText
          (handler (Decoded (sample NegZero (Fin 5) [Fin 0])) (typed '' AAPL ''))
        = str ''-Infinity%''"
    by (simp add: handler_percent [OF t e] percent_5_minus_0 str_def)
  from zero_last_close_gives_non_finite_percent [OF t e z] t e z i n m show ?thesis
    by simp
qed

subsection \<open>The chart data\<close>

lemma destroy_old_charts:
  "length (charts (destroy_old t)) = length (charts t)"
  "stockChart (destroy_old t) = stockChart t"
  "error_message_display (destroy_old t) = error_message_display t"
  by (simp_all add: destroy_old_def destroy_def split: option.splits)

lemma predicted_data_empty:
  "closes (history d) = [] \<Longrightarrow> predicted_data d = Inl RangeError"
  by (simp add: predicted_data_def new_Array_def)

lemma predicted_data_nonempty:
  assumes "well_formed d" and "closes (history d) \<noteq> []"
  shows "predicted_data d =
           Inr (replicate (length (closes (history d)) - 1) Null
                @ [Num (last_close d)] @ map (\<lambda>p. Num (price p)) (predicted d))"
proof -
  let ?n = "length (closes (history d))"
  from assms(2) have pos: "0 < ?n"
    by simp
  from assms(1) have "?n < 2 ^ 32"
    by (simp add: well_formed_def)
  then have "int ?n < 2 ^ 32"
    by (metis of_nat_less_iff of_nat_numeral of_nat_power)
  with pos have "new_Array (int ?n - 1) = Inr (replicate (?n - 1) Hole)"
    by (simp add: new_Array_def nat_diff_distrib')
  then show ?thesis
    by (simp add: predicted_data_def fill_def)
qed

lemma render_chart_empty:
  "closes (history d) = [] \<Longrightarrow> render_chart d t = (Some RangeError, destroy_old t)"
  by (simp add: render_chart_def new_config_def predicted_data_empty)

lemma render_chart_nonempty:
  assumes "well_formed d" and "closes (history d) \<noteq> []"
  shows "render_chart d t
           = (None, new_Chart (projr (new_config d (labels d))) (destroy_old t))"
    and "chart_labels (projr (new_config d (labels d))) = labels d"
    and "map data (datasets (projr (new_config d (labels d)))) =
           [map Num (closes (history d)),
            replicate (length (closes (history d)) - 1) Null
            @ [Num (last_close d)] @ map (\<lambda>p. Num (price p)) (predicted d)]"
  by (simp_all add: render_chart_def new_config_def predicted_data_nonempty [OF assms])

text \<open>
  C10. For an error-free body whose \<^verbatim>\<open>history.closes\<close> is empty, line 78 evaluates
  \<^verbatim>\<open>new Array(-1)\<close>, which throws a RangeError. The \<^verbatim>\<open>try\<close> block ends with that
  exception, the \<^verbatim>\<open>catch\<close> block shows \<^verbatim>\<open>Error connecting to server.\<close>, and the six
  result fields hold what lines 38 to 50 wrote before the exception; the results section
  has been shown as well. No chart has been constructed.
\<close>

theorem empty_history_throws_after_card:
  assumes "trim (ticker_input_value s) \<noteq> []" and "error_free d"
    and "closes (history d) = []"
  shows "new_Array (int (length (closes (history d))) - 1) = Inl RangeError
         \<and> fst (try_block (Decoded d) s) = Some RangeError
         \<and> error_message_innerText (handler (Decoded d) s) = str ''Error connecting to server.''
         \<and> error_message_display (handler (Decoded d) s) = str ''block''
         \<and> result_fields (handler (Decoded d) s) =
             [ticker d, str ''$'' @ to_string (last_close d),
              str ''$'' @ to_string (predicted_price d),
              str ''$'' @ change d, percent d @ str ''%'',
              if bullish d then str ''Bullish '' @ [0x2191] else str ''Bearish '' @ [0x2193]]
         \<and> results_section_display (handler (Decoded d) s) = str ''block''
         \<and> stockChart (handler (Decoded d) s) = stockChart s
         \<and> length (charts (handler (Decoded d) s)) = length (charts s)"
proof -
  have a: "new_Array (int (length (closes (history d))) - 1) = Inl RangeError"
    using assms(3) by (simp add: new_Array_def)
  have b: "try_block (Decoded d) t = (Some RangeError, destroy_old (fill_card d t))" for t
    using assms(2,3) by (simp add: try_block_error_free render_chart_empty)
  have c: "click_finish (Decoded d) t =
             finally_block
               (show_error (str ''Error connecting to server.'') (destroy_old (fill_card d t)))"
    for t
    by (simp add: click_finish_def b catch_block_def)
  have e: "error_message_innerText (handler (Decoded d) s) = str ''Error connecting to server.''"
    "error_message_display (handler (Decoded d) s) = str ''block''"
    using assms(1) by (simp_all add: handler_sent c finally_block_def show_error_def)
  have k: "stockChart (handler (Decoded d) s) = stockChart s"
    "length (charts (handler (Decoded d) s)) = length (charts s)"
    using assms(1)
    by (simp_all add: handler_sent c finally_block_def show_error_def destroy_old_charts
        fill_card_def)
  from a b [of s] e k handler_card(1,3) [OF assms(1,2)] show ?thesis
    by simp
qed

theorem empty_history_throws_after_card_witness:
  "trim (ticker_input_value (typed '' AAPL '')) \<noteq> []
   \<and> error_free (sample (Fin 100) (Fin 105) [])
   \<and> closes (history (sample (Fin 100) (Fin 105) [])) = []
   \<and> error_message_innerText (handler (Decoded (sample (Fin 100) (Fin 105) [])) (typed '' AAPL ''))
       = str ''Error connecting to server.''
   \<and> price_change_innerText (handler (Decoded (sample (Fin 100) (Fin 105) [])) (typed '' AAPL ''))
       = str ''$5.00''
   \<and> stockChart (handler (Decoded (sample (Fin 100) (Fin 105) [])) (typed '' AAPL '')) = None"
proof -
  let ?d = "sample (Fin 100) (Fin 105) []"
  have t: "trim (ticker_input_value (typed '' AAPL '')) \<noteq> []"
    by (simp add: typed_AAPL str_def)
  have e: "error_free ?d"
    by (simp add: error_free_def sample_def)
  have c: "closes (history ?d) = []"
    by (simp add: sample_def)
  have n: "stockChart (typed '' AAPL '') = None"
    by (simp add: typed_def on_load_def)
  have "change ?d = str ''5.00''"
    by (rule card_105_100) (simp_all add: sample_def)
  with empty_history_throws_after_card [OF t e c] t e c n show ?thesis
    by (simp add: result_fields_def str_def)
qed

lemma handler_chart:
  assumes "trim (ticker_input_value s) \<noteq> []" and "error_free d"
    and "well_formed d" and "closes (history d) \<noteq> []"
  shows "charts (handler (Decoded d) s) =
           charts (destroy_old s)
           @ [\<lparr> config = projr (new_config d (labels d)), destroyed = False \<rparr>]"
    and "stockChart (handler (Decoded d) s) = Some (length (charts s))"
    and "ticker_input_value (handler (Decoded d) s) = ticker_input_value s"
proof -
  let ?t = "s\<lparr> error_message_display := str ''none'',
               btn_text_display := str ''none'',
               btn_loading_display := str ''inline-flex'',
               requests := requests s @ [predict_request (trim (ticker_input_value s))] \<rparr>"
  let ?u = "destroy_old (fill_card d ?t)"
  have h: "handler (Decoded d) s
             = finally_block (new_Chart (projr (new_config d (labels d))) ?u)"
    using assms(1,2)
    by (simp add: handler_sent click_finish_def try_block_error_free
        render_chart_nonempty(1) [OF assms(3,4)] catch_block_def)
  have c: "charts ?u = charts (destroy_old s)"
    and v: "ticker_input_value ?u = ticker_input_value s"
    by (simp_all add: destroy_old_def destroy_def fill_card_def split: option.splits)
  have n: "length (charts (destroy_old s)) = length (charts s)"
    by (rule destroy_old_charts)
  show "charts (handler (Decoded d) s) =
          charts (destroy_old s)
          @ [\<lparr> config = projr (new_config d (labels d)), destroyed = False \<rparr>]"
    by (simp add: h finally_block_def new_Chart_def c)
  show "stockChart (handler (Decoded d) s) = Some (length (charts s))"
    by (simp add: h finally_block_def new_Chart_def c n)
  show "ticker_input_value (handler (Decoded d) s) = ticker_input_value s"
    by (simp add: h finally_block_def new_Chart_def v)
qed

lemma new_config_series:
  assumes "well_formed d" and "closes (history d) \<noteq> []"
  shows "data (datasets (projr (new_config d (labels d))) ! 0) = map Num (closes (history d))"
    and "data (datasets (projr (new_config d (labels d))) ! 1) =
           replicate (length (closes (history d)) - 1) Null
           @ [Num (last_close d)] @ map (\<lambda>p. Num (price p)) (predicted d)"
  by (simp_all add: new_config_def predicted_data_nonempty [OF assms])

lemma handler_config:
  assumes "trim (ticker_input_value s) \<noteq> []" and "error_free d"
    and "well_formed d" and "closes (history d) \<noteq> []"
  shows "config (last (charts (handler (Decoded d) s))) = projr (new_config d (labels d))"
    and "\<not> destroyed (last (charts (handler (Decoded d) s)))"
    and "length (charts (handler (Decoded d) s)) = Suc (length (charts s))"
  by (simp_all add: handler_chart(1) [OF assms] destroy_old_charts)

lemma handler_error_hidden:
  assumes "trim (ticker_input_value s) \<noteq> []" and "error_free d"
    and "well_formed d" and "closes (history d) \<noteq> []"
  shows "error_message_display (handler (Decoded d) s) = str ''none''"
  using assms(1,2)
  by (simp add: handler_sent click_finish_def try_block_error_free
      render_chart_nonempty(1) [OF assms(3,4)] catch_block_def finally_block_def
      new_Chart_def destroy_old_charts fill_card_def)

text \<open>
  C7, as the code has it. For a well-formed, error-free body with at least one
  historical close, the handler constructs a chart and assigns it to \<^verbatim>\<open>stockChart\<close>.
  Its labels are \<^verbatim>\<open>history.dates\<close> followed by the predicted dates; its historical series
  is \<^verbatim>\<open>history.closes\<close>; its predicted series is one \<^verbatim>\<open>null\<close> fewer than there are
  closes, then \<^verbatim>\<open>last_close\<close>, then the predicted prices. So the predicted line has no
  value before the index of the last historical close, and at that index it has the
  value \<^verbatim>\<open>last_close\<close>, where the historical line has the last element of
  \<^verbatim>\<open>history.closes\<close>: the predicted line starts at the last historical point exactly when
  the two are the same Number. The combined price sequence of line 59 is
  \<^verbatim>\<open>history.closes\<close> followed by the predicted prices.
\<close>

theorem chart_series_for_nonempty_history:
  assumes "trim (ticker_input_value s) \<noteq> []" and "error_free d"
    and "well_formed d" and "closes (history d) \<noteq> []"
  shows "(let s' = handler (Decoded d) s;
              cfg = config (last (charts s'));
              hist = data (datasets cfg ! 0);
              pred = data (datasets cfg ! 1);
              n = length (closes (history d))
          in stockChart s' = Some (length (charts s))
             \<and> length (charts s') = Suc (length (charts s))
             \<and> \<not> destroyed (last (charts s'))
             \<and> error_message_display s' = str ''none''
             \<and> chart_labels cfg = dates (history d) @ map date (predicted d)
             \<and> map data (datasets cfg) = [hist, pred]
             \<and> hist = map Num (closes (history d))
             \<and> pred = replicate (n - 1) Null
                       @ [Num (last_close d)] @ map (\<lambda>p. Num (price p)) (predicted d)
             \<and> take (n - 1) pred = replicate (n - 1) Null
             \<and> pred ! (n - 1) = Num (last_close d)
             \<and> hist ! (n - 1) = Num (last (closes (history d)))
             \<and> (pred ! (n - 1) = hist ! (n - 1)
                  \<longleftrightarrow> last_close d = last (closes (history d)))
             \<and> prices d = closes (history d) @ map price (predicted d))"
proof -
  let ?s' = "handler (Decoded d) s"
  let ?cfg = "config (last (charts ?s'))"
  let ?n = "length (closes (history d))"
  let ?pred = "replicate (?n - 1) Null
               @ [Num (last_close d)] @ map (\<lambda>p. Num (price p)) (predicted d)"
  have cfg: "?cfg = projr (new_config d (labels d))"
    and live: "\<not> destroyed (last (charts ?s'))"
    and len: "length (charts ?s') = Suc (length (charts s))"
    by (rule handler_config [OF assms])+
  have ref: "stockChart ?s' = Some (length (charts s))"
    by (rule handler_chart(2) [OF assms])
  have hid: "error_message_display ?s' = str ''none''"
    by (rule handler_error_hidden [OF assms])
  have lab: "chart_labels ?cfg = dates (history d) @ map date (predicted d)"
    unfolding cfg using render_chart_nonempty(2) [OF assms(3,4)] by (simp add: labels_def)
  have two: "map data (datasets ?cfg) = [map Num (closes (history d)), ?pred]"
    unfolding cfg by (rule render_chart_nonempty(3) [OF assms(3,4)])
  have hist: "data (datasets ?cfg ! 0) = map Num (closes (history d))"
    and pred: "data (datasets ?cfg ! 1) = ?pred"
    unfolding cfg by (rule new_config_series [OF assms(3,4)])+
  from assms(4) have pos: "?n - 1 < ?n"
    by simp
  have nulls: "take (?n - 1) ?pred = replicate (?n - 1) Null"
    by simp
  have first: "?pred ! (?n - 1) = Num (last_close d)"
    by (simp add: nth_append)
  have lastp: "map Num (closes (history d)) ! (?n - 1) = Num (last (closes (history d)))"
    using assms(4) pos by (simp add: last_conv_nth)
  from ref len live hid lab two hist pred nulls first lastp show ?thesis
    by (simp add: Let_def prices_def)
qed

theorem chart_series_for_nonempty_history_witness:
  "trim (ticker_input_value (typed '' AAPL '')) \<noteq> []
   \<and> error_free (sample (Fin 100) (Fin 105) [Fin 99, Fin 100])
   \<and> well_formed (sample (Fin 100) (Fin 105) [Fin 99, Fin 100])
   \<and> closes (history (sample (Fin 100) (Fin 105) [Fin 99, Fin 100])) \<noteq> []
   \<and> stockChart (handler (Decoded (sample (Fin 100) (Fin 105) [Fin 99, Fin 100]))
        (typed '' AAPL '')) = Some 0
   \<and> map data (datasets (config (last (charts
        (handler (Decoded (sample (Fin 100) (Fin 105) [Fin 99, Fin 100])) (typed '' AAPL ''))))))
       = [[Num (Fin 99), Num (Fin 100)], [Null, Num (Fin 100), Num (Fin 105)]]
   \<and> chart_labels (config (last (charts
        (handler (Decoded (sample (Fin 100) (Fin 105) [Fin 99, Fin 100])) (typed '' AAPL '')))))
       = [str ''2024-01-02'', str ''2024-01-02'', str ''2024-01-03'']
   \<and> data (datasets (config (last (charts
        (handler (Decoded (sample (Fin 100) (Fin 105) [Fin 99, Fin 100])) (typed '' AAPL ''))))) ! 1)
       ! 1
       = data (datasets (config (last (charts
        (handler (Decoded (sample (Fin 100) (Fin 105) [Fin 99, Fin 100])) (typed '' AAPL ''))))) ! 0)
       ! 1"
proof -
  let ?d = "sample (Fin 100) (Fin 105) [Fin 99, Fin 100]"
  have t: "trim (ticker_input_value (typed '' AAPL '')) \<noteq> []"
    by (simp add: typed_AAPL str_def)
  have e: "error_free ?d"
    by (simp add: error_free_def sample_def)
  have w: "well_formed ?d"
    by (simp add: well_formed_def sample_def)
  have c: "closes (history ?d) \<noteq> []"
    by (simp add: sample_def)
  have n: "charts (typed '' AAPL '') = []"
    by (simp add: typed_def on_load_def)
  have v: "closes (history ?d) = [Fin 99, Fin 100]" "last_close ?d = Fin 100"
    "predicted ?d = [\<lparr> date = str ''2024-01-03'', price = Fin 105 \<rparr>]"
    "dates (history ?d) = [str ''2024-01-02'', str ''2024-01-02'']"
    by (simp_all add: sample_def)
  from chart_series_for_nonempty_history [OF t e w c] t e w c n show ?thesis
    by (simp add: Let_def v)
qed

text \<open>
  C7 as stated fails in two ways. First, for a well-formed error-free body whose
  \<^verbatim>\<open>history.closes\<close> is empty there is no predicted series: evaluating its data throws,
  and the click ends without any chart object. Second, the predicted line need not start
  at the last historical point: for the closes 10, 11, 12.5 and a \<^verbatim>\<open>last_close\<close> of 12 its
  first value is 12, at the index where the historical line ends with 12.5.
\<close>

theorem chart_series_claim_fails:
  "well_formed (sample (Fin 100) (Fin 105) [])
   \<and> error_free (sample (Fin 100) (Fin 105) [])
   \<and> predicted_data (sample (Fin 100) (Fin 105) []) = Inl RangeError
   \<and> predicted_data (sample (Fin 100) (Fin 105) []) \<noteq>
       Inr (replicate (length (closes (history (sample (Fin 100) (Fin 105) []))) - 1) Null
            @ [Num (last_close (sample (Fin 100) (Fin 105) []))]
            @ map (\<lambda>p. Num (price p)) (predicted (sample (Fin 100) (Fin 105) [])))
   \<and> charts (handler (Decoded (sample (Fin 100) (Fin 105) [])) (typed '' AAPL '')) = []
   \<and> stockChart (handler (Decoded (sample (Fin 100) (Fin 105) [])) (typed '' AAPL '')) = None
   \<and> well_formed (sample (Fin 12) (Fin 13) [Fin 10, Fin 11, Fin (25 / 2)])
   \<and> error_free (sample (Fin 12) (Fin 13) [Fin 10, Fin 11, Fin (25 / 2)])
   \<and> map data (datasets (config (last (charts
        (handler (Decoded (sample (Fin 12) (Fin 13) [Fin 10, Fin 11, Fin (25 / 2)]))
           (typed '' AAPL ''))))))
       = [[Num (Fin 10), Num (Fin 11), Num (Fin (25 / 2))],
          [Null, Null, Num (Fin 12), Num (Fin 13)]]
   \<and> data (datasets (config (last (charts
        (handler (Decoded (sample (Fin 12) (Fin 13) [Fin 10, Fin 11, Fin (25 / 2)]))
           (typed '' AAPL ''))))) ! 1) ! 2
       \<noteq> data (datasets (config (last (charts
        (handler (Decoded (sample (Fin 12) (Fin 13) [Fin 10, Fin 11, Fin (25 / 2)]))
           (typed '' AAPL ''))))) ! 0) ! 2"
proof -
  let ?d = "sample (Fin 100) (Fin 105) []"
  let ?g = "sample (Fin 12) (Fin 13) [Fin 10, Fin 11, Fin (25 / 2)]"
  have t: "trim (ticker_input_value (typed '' AAPL '')) \<noteq> []"
    by (simp add: typed_AAPL str_def)
  have w: "well_formed (sample lc pp [])" "well_formed (sample lc pp [a, b, c])" for lc pp a b c
    by (simp_all add: well_formed_def sample_def)
  have e: "error_free (sample lc pp cs)" for lc pp cs
    by (simp add: error_free_def sample_def)
  have c: "closes (history ?d) = []"
    by (simp add: sample_def)
  have p: "predicted_data ?d = Inl RangeError"
    using c by (rule predicted_data_empty)
  have r: "try_block (Decoded ?d) u = (Some RangeError, destroy_old (fill_card ?d u))" for u
    using e c by (simp add: try_block_error_free render_chart_empty)
  have none: "charts (handler (Decoded ?d) (typed '' AAPL '')) = []
        \<and> stockChart (handler (Decoded ?d) (typed '' AAPL '')) = None"
    using t
    by (simp add: handler_sent click_finish_def r catch_block_def finally_block_def
        show_error_def destroy_old_def fill_card_def)
      (simp add: typed_def on_load_def)
  have ne: "closes (history ?g) \<noteq> []"
    by (simp add: sample_def)
  have cfg: "config (last (charts (handler (Decoded ?g) (typed '' AAPL ''))))
               = projr (new_config ?g (labels ?g))"
    by (rule handler_config(1) [OF t e w(2) ne])
  have h: "data (datasets (projr (new_config ?g (labels ?g))) ! 0)
             = [Num (Fin 10), Num (Fin 11), Num (Fin (25 / 2))]"
    using new_config_series(1) [OF w(2) ne] by (simp add: sample_def)
  have q: "data (datasets (projr (new_config ?g (labels ?g))) ! 1)
             = [Null, Null, Num (Fin 12), Num (Fin 13)]"
    using new_config_series(2) [OF w(2) ne] by (simp add: sample_def)
  have m: "map data (datasets (projr (new_config ?g (labels ?g))))
             = [[Num (Fin 10), Num (Fin 11), Num (Fin (25 / 2))],
                [Null, Null, Num (Fin 12), Num (Fin 13)]]"
    using render_chart_nonempty(3) [OF w(2) ne] by (simp add: sample_def)
  have two: "map data (datasets (config (last (charts
               (handler (Decoded ?g) (typed '' AAPL ''))))))
             = [[Num (Fin 10), Num (Fin 11), Num (Fin (25 / 2))],
                [Null, Null, Num (Fin 12), Num (Fin 13)]]"
    unfolding cfg by (rule m)
  have apart: "data (datasets (config (last (charts
                 (handler (Decoded ?g) (typed '' AAPL ''))))) ! 1) ! 2
               \<noteq> data (datasets (config (last (charts
                 (handler (Decoded ?g) (typed '' AAPL ''))))) ! 0) ! 2"
    unfolding cfg h q by simp
  from w e p none two apart show ?thesis
    by simp
qed

subsection \<open>At most one live chart\<close>

lemma chart_inv_on_load: "chart_inv (on_load p)"
  by (simp add: chart_inv_def on_load_def)

lemma chart_inv_same:
  "chart_inv s \<Longrightarrow> charts t = charts s \<Longrightarrow> stockChart t = stockChart s \<Longrightarrow> chart_inv t"
  by (simp add: chart_inv_def)

lemma chart_inv_one_live:
  assumes "chart_inv s"
  shows "length (live_charts s) \<le> 1"
proof (cases "charts s = []")
  case True
  then show ?thesis
    by (simp add: live_charts_def)
next
  case False
  then have "charts s = butlast (charts s) @ [last (charts s)]"
    by simp
  then have "live_charts s =
               filter (\<lambda>c. \<not> destroyed c) (butlast (charts s))
               @ filter (\<lambda>c. \<not> destroyed c) [last (charts s)]"
    unfolding live_charts_def by (metis filter_append)
  moreover from assms have "filter (\<lambda>c. \<not> destroyed c) (butlast (charts s)) = []"
    by (simp add: chart_inv_def filter_empty_conv list_all_iff)
  ultimately show ?thesis
    by simp
qed

lemma all_destroyed_no_live:
  "list_all destroyed (charts s) \<Longrightarrow> live_charts s = []"
  by (simp add: live_charts_def filter_empty_conv list_all_iff)

text \<open>Line 62 leaves no chart alive, wherever the invariant holds.\<close>

lemma destroy_old_all_destroyed:
  assumes "chart_inv s"
  shows "list_all destroyed (charts (destroy_old s))" and "chart_inv (destroy_old s)"
proof -
  show a: "list_all destroyed (charts (destroy_old s))"
  proof (cases "charts s = []")
    case True
    with assms show ?thesis
      by (simp add: chart_inv_def destroy_old_def)
  next
    case False
    define bl l where "bl = butlast (charts s)" and "l = last (charts s)"
    with False have x: "charts s = bl @ [l]"
      by simp
    with assms have k: "stockChart s = Some (length bl)" and b: "list_all destroyed bl"
      by (simp_all add: chart_inv_def)
    from x k have "charts (destroy_old s) = bl @ [l\<lparr> destroyed := True \<rparr>]"
      by (simp add: destroy_old_def destroy_def)
    with b show ?thesis
      by simp
  qed
  from assms have "stockChart (destroy_old s)
                     = (if charts (destroy_old s) = [] then None
                        else Some (length (charts (destroy_old s)) - 1))"
    by (simp add: chart_inv_def destroy_old_def destroy_def split: option.splits)
  moreover from a have "list_all destroyed (butlast (charts (destroy_old s)))"
    by (auto simp: list_all_iff dest: in_set_butlastD)
  ultimately show "chart_inv (destroy_old s)"
    by (simp add: chart_inv_def)
qed

lemma new_Chart_inv:
  "list_all destroyed (charts s) \<Longrightarrow> chart_inv (new_Chart cfg s)"
  by (simp add: chart_inv_def new_Chart_def)

lemma render_chart_inv:
  assumes "chart_inv s"
  shows "chart_inv (snd (render_chart d s))"
  using destroy_old_all_destroyed [OF assms]
  by (simp add: render_chart_def new_Chart_inv Let_def split: sum.splits)

lemma try_block_inv:
  assumes "chart_inv s"
  shows "chart_inv (snd (try_block r s))"
proof -
  have f: "chart_inv (fill_card d s)" for d
    using assms by (rule chart_inv_same) (simp_all add: fill_card_def)
  have e: "chart_inv (show_error m s)" for m
    using assms by (rule chart_inv_same) (simp_all add: show_error_def)
  show ?thesis
    using assms f e
    by (simp add: try_block_def render_chart_inv split: reply.splits option.splits)
qed

lemma click_finish_inv:
  assumes "chart_inv s"
  shows "chart_inv (click_finish r s)"
proof -
  obtain x u where t: "try_block r s = (x, u)"
    by (cases "try_block r s")
  with try_block_inv [OF assms, of r] have u: "chart_inv u"
    by simp
  have c: "click_finish r s = finally_block (catch_block (x, u))"
    by (simp add: click_finish_def t)
  have "charts (click_finish r s) = charts u" and "stockChart (click_finish r s) = stockChart u"
    unfolding c
    by (cases x; simp add: catch_block_def finally_block_def show_error_def)+
  with u show ?thesis
    by (rule chart_inv_same)
qed

lemma click_start_inv:
  assumes "chart_inv s"
  shows "chart_inv (fst (click_start s))"
proof -
  have "charts (fst (click_start s)) = charts s"
    and "stockChart (fst (click_start s)) = stockChart s"
    by (simp_all add: click_start_def show_error_def Let_def)
  with assms show ?thesis
    by (rule chart_inv_same)
qed

lemma handler_inv:
  assumes "chart_inv s"
  shows "chart_inv (handler r s)"
proof -
  obtain t b where c: "click_start s = (t, b)"
    by (cases "click_start s")
  with click_start_inv [OF assms] have "chart_inv t"
    by simp
  with c show ?thesis
    by (cases b) (simp_all add: handler_def click_finish_inv)
qed

lemma step_inv:
  assumes "chart_inv (fst c)"
  shows "chart_inv (fst (step c e))"
proof (cases c)
  case (Pair s n)
  with assms have s: "chart_inv s"
    by simp
  show ?thesis
  proof (cases e)
    case (Input t)
    have "chart_inv (s\<lparr> ticker_input_value := t \<rparr>)"
      using s by (rule chart_inv_same) simp_all
    with Pair Input show ?thesis
      by simp
  next
    case Click
    obtain t b where k: "click_start s = (t, b)"
      by (cases "click_start s")
    with click_start_inv [OF s] have "chart_inv t"
      by simp
    with Pair Click k show ?thesis
      by (cases b) simp_all
  next
    case (Settle r)
    with Pair s click_finish_inv [OF s] show ?thesis
      by simp
  qed
qed

lemma run_inv:
  "chart_inv (fst c) \<Longrightarrow> chart_inv (fst (run evs c))"
proof (induction evs arbitrary: c)
  case Nil
  then show ?case
    by (simp add: run_def)
next
  case (Cons e evs)
  from Cons.IH [of "step c e"] step_inv [OF Cons.prems] show ?case
    by (simp add: run_def)
qed

text \<open>
  C6. \<^verbatim>\<open>stockChart\<close> is \<^verbatim>\<open>null\<close> when the script has loaded and no chart exists then.
  After any sequence of edits of the ticker field, clicks and settled network calls
  (clicks may overlap), at most one chart object is alive. From such a state, line 62
  leaves no chart alive, so the chart that line 65 constructs and assigns is the only
  one; and one click, or two clicks in succession, again leave at most one alive.
\<close>

theorem at_most_one_live_chart:
  "stockChart (on_load p) = None
   \<and> charts (on_load p) = []
   \<and> length (live_charts (fst (run evs (on_load p, 0)))) \<le> 1
   \<and> live_charts (destroy_old (fst (run evs (on_load p, 0)))) = []
   \<and> length (live_charts (snd (render_chart d (fst (run evs (on_load p, 0)))))) \<le> 1
   \<and> length (live_charts (handler r1 (fst (run evs (on_load p, 0))))) \<le> 1
   \<and> length (live_charts (handler r2 (handler r1 (fst (run evs (on_load p, 0)))))) \<le> 1"
proof -
  let ?s = "fst (run evs (on_load p, 0))"
  have i: "chart_inv ?s"
    by (rule run_inv) (simp add: chart_inv_on_load)
  have "stockChart (on_load p) = None" and "charts (on_load p) = []"
    by (simp_all add: on_load_def)
  moreover have "length (live_charts ?s) \<le> 1"
    using i by (rule chart_inv_one_live)
  moreover have "live_charts (destroy_old ?s) = []"
    using destroy_old_all_destroyed(1) [OF i] by (rule all_destroyed_no_live)
  moreover have "length (live_charts (snd (render_chart d ?s))) \<le> 1"
    using render_chart_inv [OF i] by (rule chart_inv_one_live)
  moreover have "length (live_charts (handler r1 ?s)) \<le> 1"
    using handler_inv [OF i] by (rule chart_inv_one_live)
  moreover have "length (live_charts (handler r2 (handler r1 ?s))) \<le> 1"
    using handler_inv [OF handler_inv [OF i]] by (rule chart_inv_one_live)
  ultimately show ?thesis
    by simp
qed

text \<open>
  Two successful clicks in succession, from a freshly loaded page: two chart objects
  have been constructed, the first has been destroyed, and \<^verbatim>\<open>stockChart\<close> refers to the
  second.
\<close>

theorem at_most_one_live_chart_witness:
  "length (live_charts
     (handler (Decoded (sample (Fin 100) (Fin 95) [Fin 99, Fin 100]))
        (handler (Decoded (sample (Fin 100) (Fin 105) [Fin 99, Fin 100])) (typed '' AAPL ''))))
     \<le> 1
   \<and> map destroyed (charts
       (handler (Decoded (sample (Fin 100) (Fin 95) [Fin 99, Fin 100]))
          (handler (Decoded (sample (Fin 100) (Fin 105) [Fin 99, Fin 100])) (typed '' AAPL ''))))
       = [True, False]
   \<and> stockChart
       (handler (Decoded (sample (Fin 100) (Fin 95) [Fin 99, Fin 100]))
          (handler (Decoded (sample (Fin 100) (Fin 105) [Fin 99, Fin 100])) (typed '' AAPL '')))
       = Some 1"
proof -
  let ?a = "sample (Fin 100) (Fin 105) [Fin 99, Fin 100]"
  let ?b = "sample (Fin 100) (Fin 95) [Fin 99, Fin 100]"
  let ?s0 = "typed '' AAPL ''"
  let ?s1 = "handler (Decoded ?a) ?s0"
  have r: "fst (run [Input (str '' AAPL '')] (on_load blank_page, 0)) = ?s0"
    by (simp add: run_def typed_def)
  have t0: "trim (ticker_input_value ?s0) \<noteq> []"
    by (simp add: typed_AAPL str_def)
  have ok: "error_free (sample lc pp [Fin 99, Fin 100])"
    "well_formed (sample lc pp [Fin 99, Fin 100])"
    "closes (history (sample lc pp [Fin 99, Fin 100])) \<noteq> []" for lc pp
    by (simp_all add: error_free_def well_formed_def sample_def)
  have c0: "charts ?s0 = []" "stockChart ?s0 = None"
    by (simp_all add: typed_def on_load_def)
  have c1: "charts ?s1 = [\<lparr> config = projr (new_config ?a (labels ?a)), destroyed = False \<rparr>]"
    and k1: "stockChart ?s1 = Some 0"
    and t1: "trim (ticker_input_value ?s1) \<noteq> []"
    using handler_chart [OF t0 ok] t0 by (simp_all add: destroy_old_def c0)
  have d1: "charts (destroy_old ?s1)
              = [\<lparr> config = projr (new_config ?a (labels ?a)), destroyed = True \<rparr>]"
    by (simp add: destroy_old_def destroy_def c1 k1)
  have c2: "map destroyed (charts (handler (Decoded ?b) ?s1)) = [True, False]"
    and k2: "stockChart (handler (Decoded ?b) ?s1) = Some 1"
    using handler_chart(1,2) [OF t1 ok] by (simp_all add: d1 c1)
  from at_most_one_live_chart
         [of blank_page "[Input (str '' AAPL '')]" _ "Decoded ?a" "Decoded ?b"] c2 k2
  show ?thesis
    by (simp add: r)
qed

end
